theory Spec2Isabelle
  imports Main "HOL-Library.Word"
begin

section \<open>Strings, time and JSON values\<close>

text \<open>
  A JavaScript string is a sequence of UTF-16 code units; \<open>length\<close> counts code units.
  Literals of the source are written \<open>js ''...''\<close>.  Instants (\<open>Date\<close>, \<open>TIMESTAMPTZ\<close>,
  \<open>NOW()\<close>) are milliseconds since the epoch.
\<close>

type_synonym jsstring = "nat list"

definition js :: "string \<Rightarrow> jsstring" where
  "js s = map of_char s"

type_synonym timestamp = int

datatype json =
    JNull
  | JBool bool
  | JNum int
  | JStr jsstring
  | JArr "json list"
  | JObj "(jsstring \<times> json) list"

section \<open>Tables of db/schema.sql\<close>

datatype task_type = OneTime | Recurring

datatype task_status = Active | Paused | Completed | Failed | Cancelled

text \<open>\<open>callback_config\<close> is the JSON object \<open>{url, channel, email}\<close> the tools store.\<close>

record callback_config =
  url :: "jsstring option"
  channel :: "jsstring option"
  email :: "jsstring option"

record task =
  task_id :: jsstring
  name :: jsstring
  description :: "jsstring option"
  task_type :: task_type
  scheduled_at :: "timestamp option"
  cron_expression :: "jsstring option"
  timezone :: jsstring
  next_run_at :: "timestamp option"
  callback_type :: jsstring
  callback_config :: callback_config
  payload :: json
  status :: task_status
  max_retries :: int
  retry_delay_seconds :: int
  current_retry_count :: int
  last_executed_at :: "timestamp option"
  execution_count :: int
  created_at :: timestamp
  updated_at :: timestamp
  created_by :: "jsstring option"
  tags :: "jsstring list"
  locked_at :: "timestamp option"
  locked_by :: "jsstring option"

text \<open>
  The \<open>tasks\<close> table is the list of its rows.  Every \<open>UPDATE\<close> of a row passes through
  the trigger \<open>update_tasks_updated_at\<close>, which stamps \<open>updated_at = NOW()\<close>.
\<close>

type_synonym task_table = "task list"

definition touch :: "timestamp \<Rightarrow> task \<Rightarrow> task" where
  "touch now t = t\<lparr>updated_at := now\<rparr>"

text \<open>\<open>UPDATE tasks SET ... WHERE id = $1 AND cond RETURNING *\<close>, then \<open>result.rows[0]\<close>:
  the rows that satisfy the condition are rewritten (and touched by the trigger), the first
  rewritten row is returned, \<open>None\<close> when no row matched.\<close>

definition update_where ::
  "(task \<Rightarrow> bool) \<Rightarrow> (task \<Rightarrow> task) \<Rightarrow> timestamp \<Rightarrow> task_table \<Rightarrow> task option \<times> task_table" where
  "update_where cond f now db =
     (case filter cond db of
        [] \<Rightarrow> (None, db)
      | t # _ \<Rightarrow> (Some (touch now (f t)), map (\<lambda>r. if cond r then touch now (f r) else r) db))"

subsection \<open>TaskQueries (db/queries.js)\<close>

text \<open>Ids are compared as strings.  The column is a \<open>UUID\<close>: PostgreSQL compares two
  spellings of one UUID as equal and rejects the query for a text that is not a UUID; the
  ids the code stores come from \<open>uuidv4()\<close> in canonical lower-case form, for which the two
  comparisons agree.\<close>

definition getById :: "jsstring \<Rightarrow> task_table \<Rightarrow> task option" where
  "getById i db = (case filter (\<lambda>t. task_id t = i) db of [] \<Rightarrow> None | t # _ \<Rightarrow> Some t)"

definition updateStatus :: "jsstring \<Rightarrow> task_status \<Rightarrow> timestamp \<Rightarrow> task_table \<Rightarrow> task option \<times> task_table" where
  "updateStatus i s now db = update_where (\<lambda>t. task_id t = i) (\<lambda>t. t\<lparr>status := s\<rparr>) now db"

definition cancel :: "jsstring \<Rightarrow> timestamp \<Rightarrow> task_table \<Rightarrow> task option \<times> task_table" where
  "cancel i now db = updateStatus i Cancelled now db"

definition pause :: "jsstring \<Rightarrow> timestamp \<Rightarrow> task_table \<Rightarrow> task option \<times> task_table" where
  "pause i now db = updateStatus i Paused now db"

definition resume :: "jsstring \<Rightarrow> timestamp \<Rightarrow> task_table \<Rightarrow> task option \<times> task_table" where
  "resume i now db = updateStatus i Active now db"

text \<open>The view \<open>due_tasks\<close>; a comparison with a NULL instant is not true.\<close>

definition le_now :: "timestamp option \<Rightarrow> timestamp \<Rightarrow> bool" where
  "le_now v now = (case v of None \<Rightarrow> False | Some x \<Rightarrow> x \<le> now)"

definition due_tasks :: "timestamp \<Rightarrow> task_table \<Rightarrow> task_table" where
  "due_tasks now db =
     filter (\<lambda>t. status t = Active \<and> locked_at t = None \<and>
                 ((task_type t = OneTime \<and> le_now (scheduled_at t) now) \<or>
                  (task_type t = Recurring \<and> le_now (next_run_at t) now))) db"

definition coalesce :: "'a option \<Rightarrow> 'a option \<Rightarrow> 'a option" where
  "coalesce a b = (case a of Some x \<Rightarrow> Some x | None \<Rightarrow> b)"

text \<open>\<open>ORDER BY COALESCE(next_run_at, scheduled_at) ASC LIMIT $1\<close>; rows whose key is NULL
  sort last.\<close>

definition due_key :: "task \<Rightarrow> timestamp option" where
  "due_key t = coalesce (next_run_at t) (scheduled_at t)"

definition getDueTasks :: "nat \<Rightarrow> timestamp \<Rightarrow> task_table \<Rightarrow> task_table" where
  "getDueTasks batchSize now db =
     (let due = due_tasks now db
      in take batchSize
           (sort_key (\<lambda>t. case due_key t of Some x \<Rightarrow> x | None \<Rightarrow> 0)
              (filter (\<lambda>t. due_key t \<noteq> None) due)
            @ filter (\<lambda>t. due_key t = None) due))"

definition lockTask :: "jsstring \<Rightarrow> jsstring \<Rightarrow> timestamp \<Rightarrow> task_table \<Rightarrow> task option \<times> task_table" where
  "lockTask i workerId now db =
     update_where (\<lambda>t. task_id t = i \<and> locked_at t = None \<and> status t = Active)
       (\<lambda>t. t\<lparr>locked_at := Some now, locked_by := Some workerId\<rparr>) now db"

definition unlockTask :: "jsstring \<Rightarrow> timestamp \<Rightarrow> task_table \<Rightarrow> task option \<times> task_table" where
  "unlockTask i now db =
     update_where (\<lambda>t. task_id t = i) (\<lambda>t. t\<lparr>locked_at := None, locked_by := None\<rparr>) now db"

definition recordExecution ::
  "jsstring \<Rightarrow> timestamp option \<Rightarrow> bool \<Rightarrow> timestamp \<Rightarrow> task_table \<Rightarrow> task option \<times> task_table" where
  "recordExecution i nextRunAt completed now db =
     update_where (\<lambda>t. task_id t = i)
       (\<lambda>t. t\<lparr>last_executed_at := Some now,
               execution_count := execution_count t + 1,
               next_run_at := nextRunAt,
               status := (if completed then Completed else status t),
               locked_at := None,
               locked_by := None\<rparr>) now db"

definition countActiveByUser :: "jsstring \<Rightarrow> task_table \<Rightarrow> nat" where
  "countActiveByUser createdBy db =
     length (filter (\<lambda>t. created_by t = Some createdBy \<and> (status t = Active \<or> status t = Paused)) db)"

text \<open>The stale-lock cleanup of the scheduler worker (\<open>cleanupStaleLocks\<close>):
  \<open>WHERE locked_at < NOW() - lockTimeout\<close>.\<close>

definition lt_opt :: "timestamp option \<Rightarrow> timestamp \<Rightarrow> bool" where
  "lt_opt v bound = (case v of None \<Rightarrow> False | Some x \<Rightarrow> x < bound)"

definition cleanupStaleLocks :: "int \<Rightarrow> timestamp \<Rightarrow> task_table \<Rightarrow> task_table" where
  "cleanupStaleLocks lockTimeoutMs now db =
     snd (update_where (\<lambda>t. lt_opt (locked_at t) (now - lockTimeoutMs))
            (\<lambda>t. t\<lparr>locked_at := None, locked_by := None\<rparr>) now db)"

text \<open>\<open>TaskQueries.create\<close>.  The argument is the object the tools build; \<open>a || b\<close> takes
  \<open>b\<close> when \<open>a\<close> is undefined, null or the empty string.  The new id is \<open>uuidv4()\<close>.  The
  insert is refused (the query rejects) when a constraint of the table is violated: the
  primary key, \<open>name NOT NULL\<close>, the lengths of the \<open>VARCHAR\<close> columns, the \<open>CHECK\<close> on
  \<open>callback_type\<close> and the range of the \<open>INT\<close> columns.\<close>

record new_task =
  n_name :: "jsstring option"
  n_description :: "jsstring option"
  n_taskType :: task_type
  n_scheduledAt :: "timestamp option"
  n_cronExpression :: "jsstring option"
  n_timezone :: "jsstring option"
  n_nextRunAt :: "timestamp option"
  n_callbackType :: jsstring
  n_callbackConfig :: callback_config
  n_payload :: "json option"
  n_maxRetries :: "int option"
  n_retryDelaySeconds :: "int option"
  n_createdBy :: "jsstring option"
  n_tags :: "jsstring list option"

definition str_or_null :: "jsstring option \<Rightarrow> jsstring option" where
  "str_or_null v = (case v of None \<Rightarrow> None | Some s \<Rightarrow> if s = [] then None else Some s)"

text \<open>The JSON values that are falsy (\<open>task.payload || {}\<close>).\<close>

definition json_falsy :: "json \<Rightarrow> bool" where
  "json_falsy v = (v = JNull \<or> v = JBool False \<or> v = JNum 0 \<or> v = JStr [])"

definition new_row :: "jsstring \<Rightarrow> new_task \<Rightarrow> timestamp \<Rightarrow> task" where
  "new_row newId task now =
     \<lparr> task_id = newId,
       name = (case n_name task of Some s \<Rightarrow> s | None \<Rightarrow> []),
       description = str_or_null (n_description task),
       task_type = n_taskType task,
       scheduled_at = n_scheduledAt task,
       cron_expression = str_or_null (n_cronExpression task),
       timezone = (case str_or_null (n_timezone task) of Some z \<Rightarrow> z | None \<Rightarrow> js ''UTC''),
       next_run_at = coalesce (n_nextRunAt task) (n_scheduledAt task),
       callback_type = n_callbackType task,
       callback_config = n_callbackConfig task,
       payload = (case n_payload task of Some p \<Rightarrow> if json_falsy p then JObj [] else p
                                       | None \<Rightarrow> JObj []),
       status = Active,
       max_retries = (case n_maxRetries task of Some r \<Rightarrow> r | None \<Rightarrow> 3),
       retry_delay_seconds = (case n_retryDelaySeconds task of Some r \<Rightarrow> r | None \<Rightarrow> 60),
       current_retry_count = 0,
       last_executed_at = None,
       execution_count = 0,
       created_at = now,
       updated_at = now,
       created_by = str_or_null (n_createdBy task),
       tags = (case n_tags task of Some ts \<Rightarrow> ts | None \<Rightarrow> []),
       locked_at = None,
       locked_by = None \<rparr>"

text \<open>The constraints of schema.sql that an insert of \<open>create\<close> can violate.  The
  \<open>VARCHAR(n)\<close> limits count characters in PostgreSQL and UTF-16 code units here (the two
  differ for characters outside the basic plane); the rejection of U+0000 in a text and the
  range of \<open>TIMESTAMPTZ\<close> are not modelled.\<close>

definition opt_len_le :: "jsstring option \<Rightarrow> nat \<Rightarrow> bool" where
  "opt_len_le v n = (case v of None \<Rightarrow> True | Some s \<Rightarrow> length s \<le> n)"

definition is_int4 :: "int \<Rightarrow> bool" where
  "is_int4 v = (- 2147483648 \<le> v \<and> v \<le> 2147483647)"

definition row_ok :: "new_task \<Rightarrow> task \<Rightarrow> task_table \<Rightarrow> bool" where
  "row_ok task r db =
     (task_id r \<notin> set (map task_id db) \<and>
      n_name task \<noteq> None \<and>
      length (name r) \<le> 255 \<and>
      opt_len_le (cron_expression r) 100 \<and>
      length (timezone r) \<le> 50 \<and>
      callback_type r \<in> set [js ''webhook'', js ''slack'', js ''email'', js ''store''] \<and>
      is_int4 (max_retries r) \<and>
      is_int4 (retry_delay_seconds r) \<and>
      opt_len_le (created_by r) 255)"

definition constraint_violation :: jsstring where
  "constraint_violation = js ''violates constraint''"

definition create :: "jsstring \<Rightarrow> new_task \<Rightarrow> timestamp \<Rightarrow> task_table \<Rightarrow> jsstring + (task \<times> task_table)" where
  "create newId task now db =
     (let r = new_row newId task now
      in if row_ok task r db then Inr (r, db @ [r]) else Inl constraint_violation)"

subsection \<open>Store steps that do not release a lease\<close>

text \<open>
  Each statement of \<open>TaskQueries\<close> is one atomic step on the table; workers and tools
  interleave at the level of these steps.  \<open>store_step\<close> lists the statements other than
  \<open>unlockTask\<close>, \<open>recordExecution\<close> and the stale-lock cleanup (and the unused \<open>delete\<close>).
\<close>

datatype store_step =
    StepLock jsstring jsstring
  | StepUpdateStatus jsstring task_status
  | StepCreate jsstring new_task

fun do_step :: "timestamp \<times> store_step \<Rightarrow> task_table \<Rightarrow> task_table" where
  "do_step (now, StepLock i workerId) db = snd (lockTask i workerId now db)"
| "do_step (now, StepUpdateStatus i s) db = snd (updateStatus i s now db)"
| "do_step (now, StepCreate newId task) db =
     (case create newId task now db of Inl _ \<Rightarrow> db | Inr (_, db') \<Rightarrow> db')"

definition run_steps :: "(timestamp \<times> store_step) list \<Rightarrow> task_table \<Rightarrow> task_table" where
  "run_steps steps db = fold do_step steps db"

text \<open>The primary key: no two rows share an id.\<close>

definition unique_ids :: "task_table \<Rightarrow> bool" where
  "unique_ids db = distinct (map task_id db)"

section \<open>Regular expressions of the source\<close>

text \<open>
  The patterns of \<open>utils/security.js\<close> are written with character classes, sequence,
  alternative and repetition; \<open>rmatch\<close> decides whether a whole string matches, by
  derivatives.  A pattern that starts with \<open>^\<close> and has no \<open>$\<close> tests a prefix of the
  string; one written \<open>^...$\<close> tests the whole string.
\<close>

datatype rx = Nul | Eps | Cls "nat \<Rightarrow> bool" | Seq rx rx | Alt rx rx | Star rx

fun nullable :: "rx \<Rightarrow> bool" where
  "nullable Nul = False"
| "nullable Eps = True"
| "nullable (Cls p) = False"
| "nullable (Seq r s) = (nullable r \<and> nullable s)"
| "nullable (Alt r s) = (nullable r \<or> nullable s)"
| "nullable (Star r) = True"

fun deriv :: "nat \<Rightarrow> rx \<Rightarrow> rx" where
  "deriv c Nul = Nul"
| "deriv c Eps = Nul"
| "deriv c (Cls p) = (if p c then Eps else Nul)"
| "deriv c (Seq r s) =
     (if nullable r then Alt (Seq (deriv c r) s) (deriv c s) else Seq (deriv c r) s)"
| "deriv c (Alt r s) = Alt (deriv c r) (deriv c s)"
| "deriv c (Star r) = Seq (deriv c r) (Star r)"

fun rmatch :: "rx \<Rightarrow> jsstring \<Rightarrow> bool" where
  "rmatch r [] = nullable r"
| "rmatch r (c # cs) = rmatch (deriv c r) cs"

datatype pattern = Prefix rx | Whole rx

definition anychar :: rx where
  "anychar = Cls (\<lambda>_. True)"

fun test :: "pattern \<Rightarrow> jsstring \<Rightarrow> bool" where
  "test (Prefix r) s = rmatch (Seq r (Star anychar)) s"
| "test (Whole r) s = rmatch r s"

text \<open>Building blocks: a literal character, a literal under the \<open>i\<close> flag (only the ASCII
  letters have another case that is a single ASCII code unit), ranges, \<open>\d\<close>, \<open>r+\<close>.\<close>

definition chr :: "char \<Rightarrow> rx" where
  "chr c = Cls (\<lambda>x. x = of_char c)"

definition lower_cu :: "nat \<Rightarrow> nat" where
  "lower_cu x = (if 65 \<le> x \<and> x \<le> 90 then x + 32 else x)"

definition chr_i :: "char \<Rightarrow> rx" where
  "chr_i c = Cls (\<lambda>x. lower_cu x = lower_cu (of_char c))"

fun lit :: "string \<Rightarrow> rx" where
  "lit [] = Eps"
| "lit (c # cs) = Seq (chr c) (lit cs)"

fun lit_i :: "string \<Rightarrow> rx" where
  "lit_i [] = Eps"
| "lit_i (c # cs) = Seq (chr_i c) (lit_i cs)"

definition between :: "char \<Rightarrow> char \<Rightarrow> rx" where
  "between a b = Cls (\<lambda>x. of_char a \<le> x \<and> x \<le> of_char b)"

definition digit :: rx where
  "digit = between CHR ''0'' CHR ''9''"

definition many1 :: "rx \<Rightarrow> rx" where
  "many1 r = Seq r (Star r)"

text \<open>\<open>[0-9a-f]\<close> under the \<open>i\<close> flag.\<close>

definition hex_i :: rx where
  "hex_i = Cls (\<lambda>x. (48 \<le> x \<and> x \<le> 57) \<or> (97 \<le> lower_cu x \<and> lower_cu x \<le> 102))"

section \<open>SSRF block lists (utils/security.js)\<close>

definition BLOCKED_IPV4_PATTERNS :: "pattern list" where
  "BLOCKED_IPV4_PATTERNS =
    [ Prefix (lit ''127.''),
      Prefix (lit ''10.''),
      Prefix (Seq (lit ''172.'')
               (Seq (Alt (Seq (chr CHR ''1'') (between CHR ''6'' CHR ''9''))
                      (Alt (Seq (chr CHR ''2'') digit)
                           (Seq (chr CHR ''3'') (between CHR ''0'' CHR ''1''))))
                    (chr CHR ''.''))),
      Prefix (lit ''192.168.''),
      Prefix (lit ''169.254.''),
      Prefix (lit ''0.''),
      Prefix (Seq (lit ''100.'')
               (Seq (Alt (Seq (chr CHR ''6'') (between CHR ''4'' CHR ''9''))
                      (Alt (Seq (between CHR ''7'' CHR ''9'') digit)
                           (Seq (chr CHR ''1'') (Seq (between CHR ''0'' CHR ''2'') digit))))
                    (chr CHR ''.''))),
      Prefix (lit ''192.0.0.''),
      Prefix (lit ''192.0.2.''),
      Prefix (lit ''198.51.100.''),
      Prefix (lit ''203.0.113.''),
      Prefix (lit ''224.''),
      Prefix (lit ''240.''),
      Whole (lit ''255.255.255.255'') ]"

definition BLOCKED_IPV6_PATTERNS :: "pattern list" where
  "BLOCKED_IPV6_PATTERNS =
    [ Whole (lit_i ''::1''),
      Whole (lit ''::''),
      Prefix (lit_i ''::ffff:127.''),
      Prefix (lit_i ''::ffff:10.''),
      Prefix (Seq (lit_i ''::ffff:172.'')
               (Seq (Alt (Seq (chr CHR ''1'') (between CHR ''6'' CHR ''9''))
                      (Alt (Seq (chr CHR ''2'') digit)
                           (Seq (chr CHR ''3'') (between CHR ''0'' CHR ''1''))))
                    (chr CHR ''.''))),
      Prefix (lit_i ''::ffff:192.168.''),
      Prefix (lit_i ''::ffff:169.254.''),
      Prefix (lit_i ''::ffff:0.''),
      Prefix (lit_i ''fe80:''),
      Prefix (lit_i ''fc00:''),
      Prefix (Seq (lit_i ''fd'') (Seq hex_i (Seq hex_i (chr CHR '':'')))),
      Prefix (Seq (lit_i ''ff'') (Seq hex_i (Seq hex_i (chr CHR '':'')))),
      Prefix (lit_i ''2001:db8:''),
      Prefix (lit_i ''100::''),
      Prefix (lit_i ''64:ff9b:'') ]"

text \<open>\<open>/^::ffff:(\d+\.\d+\.\d+\.\d+)$/i\<close>; the group is what follows the seven code units
  of \<open>::ffff:\<close>.\<close>

definition ipv4Mapped :: pattern where
  "ipv4Mapped =
     Whole (Seq (lit_i ''::ffff:'')
             (Seq (many1 digit) (Seq (chr CHR ''.'')
             (Seq (many1 digit) (Seq (chr CHR ''.'')
             (Seq (many1 digit) (Seq (chr CHR ''.'') (many1 digit))))))))"

definition isBlockedIP :: "jsstring \<Rightarrow> bool" where
  "isBlockedIP ip =
     (if ip = [] then True
      else if list_ex (\<lambda>p. test p ip) BLOCKED_IPV4_PATTERNS then True
      else if list_ex (\<lambda>p. test p ip) BLOCKED_IPV6_PATTERNS then True
      else if test ipv4Mapped ip
           then list_ex (\<lambda>p. test p (drop 7 ip)) BLOCKED_IPV4_PATTERNS
      else False)"

section \<open>Cron validation (utils/security.js)\<close>

text \<open>A string is truthy when it is neither undefined nor empty.\<close>

definition truthy :: "jsstring option \<Rightarrow> bool" where
  "truthy v = (case v of None \<Rightarrow> False | Some s \<Rightarrow> s \<noteq> [])"

text \<open>The class \<open>\s\<close> of JavaScript: white space and line terminators.  \<open>trim\<close> strips
  the same code units.\<close>

definition is_space :: "nat \<Rightarrow> bool" where
  "is_space x =
     ((9 \<le> x \<and> x \<le> 13) \<or> x = 32 \<or> x = 160 \<or> x = 5760 \<or> (8192 \<le> x \<and> x \<le> 8202) \<or>
      x = 8232 \<or> x = 8233 \<or> x = 8239 \<or> x = 8287 \<or> x = 12288 \<or> x = 65279)"

definition trim :: "jsstring \<Rightarrow> jsstring" where
  "trim s = rev (dropWhile is_space (rev (dropWhile is_space s)))"

text \<open>\<open>s.split(/\s+/)\<close>: the pieces between maximal runs of white space; a run at the
  start or at the end leaves an empty piece, and the empty string gives one empty piece.\<close>

function split_spaces :: "jsstring \<Rightarrow> jsstring list" where
  "split_spaces [] = [ [] ]"
| "split_spaces (c # cs) =
     (if is_space c then [] # split_spaces (dropWhile is_space cs)
      else (case split_spaces cs of [] \<Rightarrow> [ [c] ] | p # ps \<Rightarrow> (c # p) # ps))"
  by pat_completeness auto
termination
  by (relation "measure length") (auto simp: le_imp_less_Suc length_dropWhile_le)

text \<open>\<open>s.split(',')\<close>.\<close>

fun split_comma :: "jsstring \<Rightarrow> jsstring list" where
  "split_comma [] = [ [] ]"
| "split_comma (c # cs) =
     (if c = 44 then [] # split_comma cs
      else (case split_comma cs of [] \<Rightarrow> [ [c] ] | p # ps \<Rightarrow> (c # p) # ps))"

record validation =
  valid :: bool
  error :: "jsstring option"

definition invalid :: "jsstring \<Rightarrow> validation" where
  "invalid msg = \<lparr>valid = False, error = Some msg\<rparr>"

definition ok :: validation where
  "ok = \<lparr>valid = True, error = None\<rparr>"

text \<open>\<open>/^[0-9\s,\-*/LW#?]+$/\<close>\<close>

definition allowed_char :: "nat \<Rightarrow> bool" where
  "allowed_char x =
     ((48 \<le> x \<and> x \<le> 57) \<or> is_space x \<or> x \<in> set (js '',-*/LW#?''))"

definition allowedCharsRegex :: pattern where
  "allowedCharsRegex = Whole (many1 (Cls allowed_char))"

text \<open>The argument is undefined (\<open>None\<close>) or a string.\<close>

definition validateCronExpression :: "jsstring option \<Rightarrow> validation" where
  "validateCronExpression arg =
     (if \<not> truthy arg then invalid (js ''Cron expression is required'')
      else let expression = the arg in
      if \<not> test allowedCharsRegex expression then
        invalid (js ''Cron expression contains invalid characters. Only 0-9, space, comma, dash, asterisk, and slash are allowed.'')
      else
        (let parts = split_spaces (trim expression)
         in if length parts \<noteq> 5 then
              invalid (js ''Cron expression must have exactly 5 parts (minute hour day month weekday)'')
            else if list_ex (\<lambda>part. length part > 20) parts then
              invalid (js ''Cron expression part too long'')
            else
              (let minute = hd parts
               in if minute = js ''*'' \<or> minute = js ''*/1'' then
                    invalid (js ''Cron cannot run more frequently than once per minute'')
                  else if 44 \<in> set minute \<and> length (split_comma minute) > 30 then
                    invalid (js ''Too many minute values specified'')
                  else ok)))"

section \<open>The environment of the code\<close>

text \<open>
  What the code consults outside this repository is a parameter of the model: the clock
  (\<open>Date.now()\<close>, \<open>NOW()\<close>; one instant for one call), \<open>new Date(s).getTime()\<close> (\<open>None\<close> is
  NaN), the packages \<open>ms\<close> and \<open>cron-parser\<close> (\<open>None\<close>: undefined, respectively an
  exception), the URL parser (protocol and hostname, or the message of its exception), DNS
  (a failed lookup gives no address), \<open>net.isIPv4\<close> and \<open>net.isIPv6\<close>, \<open>JSON.stringify\<close>,
  \<open>Date.prototype.toISOString\<close>,
  HMAC-SHA256 (the digest as bytes), the notifiers behind the worker, \<open>uuidv4()\<close> and the
  id the database gives a new execution row, the time a dispatch took, and the queries that
  reject (with the message of the error).  \<open>config\<close> is config.js.
\<close>

datatype query =
    QCreate | QGetById | QList | QUpdateStatus | QLockTask | QUnlockTask | QRecordExecution
  | QCountActiveByUser | QExecutionCreate | QExecutionComplete | QExecutionsByTask
  | QStoreNotification

record config =
  maxActiveTasksPerUser :: int
  maxPayloadSizeBytes :: int
  hmacSecret :: jsstring
  allowedWebhookDomains :: "jsstring list"

record dispatch_result =
  d_success :: bool
  statusCode :: "int option"
  body :: "jsstring option"
  d_error :: "jsstring option"

record env =
  clock :: timestamp
  production :: bool
  conf :: config
  parse_date :: "jsstring \<Rightarrow> timestamp option"
  ms :: "jsstring \<Rightarrow> int option"
  cron_next :: "jsstring \<Rightarrow> jsstring \<Rightarrow> timestamp \<Rightarrow> timestamp option"
  parse_url :: "jsstring \<Rightarrow> jsstring + (jsstring \<times> jsstring)"
  resolve4 :: "jsstring \<Rightarrow> jsstring list"
  resolve6 :: "jsstring \<Rightarrow> jsstring list"
  isIPv4 :: "jsstring \<Rightarrow> bool"
  isIPv6 :: "jsstring \<Rightarrow> bool"
  stringify :: "json \<Rightarrow> jsstring"
  toISOString :: "timestamp \<Rightarrow> jsstring"
  hmac_sha256 :: "jsstring \<Rightarrow> jsstring \<Rightarrow> 8 word list"
  notifier :: "jsstring \<Rightarrow> task \<Rightarrow> jsstring + dispatch_result"
  uuidv4 :: jsstring
  gen_random_uuid :: jsstring
  elapsed_ms :: int
  db_fault :: "query \<Rightarrow> jsstring option"

definition startsWith :: "jsstring \<Rightarrow> jsstring \<Rightarrow> bool" where
  "startsWith s p = (take (length p) s = p)"

text \<open>A number in a template literal: its decimal digits.\<close>

fun digits :: "nat \<Rightarrow> jsstring" where
  "digits n = (if n < 10 then [48 + n] else digits (n div 10) @ [48 + n mod 10])"

definition show_int :: "int \<Rightarrow> jsstring" where
  "show_int i = (if i < 0 then 45 # digits (nat (- i)) else digits (nat i))"

definition endsWith :: "jsstring \<Rightarrow> jsstring \<Rightarrow> bool" where
  "endsWith s p = (length p \<le> length s \<and> drop (length s - length p) s = p)"

section \<open>Time utilities (utils/time.js)\<close>

definition parseRelativeTime :: "env \<Rightarrow> jsstring option \<Rightarrow> timestamp option" where
  "parseRelativeTime e relativeTime =
     (case relativeTime of
        None \<Rightarrow> None
      | Some s \<Rightarrow> if s = [] then None
                  else (case ms e s of None \<Rightarrow> None | Some milliseconds \<Rightarrow> Some (clock e + milliseconds)))"

record timing =
  scheduledAt :: "timestamp option"
  timing_error :: "jsstring option"

definition parseTimeInput :: "env \<Rightarrow> jsstring option \<Rightarrow> jsstring option \<Rightarrow> timing" where
  "parseTimeInput e at inTime =
     (if truthy at then
        (case parse_date e (the at) of
           None \<Rightarrow> \<lparr>scheduledAt = None,
                     timing_error = Some (js ''Invalid datetime format. Use ISO 8601 (e.g., 2025-12-20T09:00:00Z)'')\<rparr>
         | Some date \<Rightarrow>
             if date \<le> clock e
             then \<lparr>scheduledAt = None, timing_error = Some (js ''Scheduled time must be in the future'')\<rparr>
             else \<lparr>scheduledAt = Some date, timing_error = None\<rparr>)
      else if truthy inTime then
        (case parseRelativeTime e inTime of
           None \<Rightarrow> \<lparr>scheduledAt = None,
                     timing_error = Some (js ''Invalid relative time format. Use formats like '' @ [34] @ js ''30m''
                                          @ [34] @ js '', '' @ [34] @ js ''2h'' @ [34] @ js '', '' @ [34]
                                          @ js ''3d'' @ [34] @ js '', '' @ [34] @ js ''1w'' @ [34])\<rparr>
         | Some date \<Rightarrow> \<lparr>scheduledAt = Some date, timing_error = None\<rparr>)
      else \<lparr>scheduledAt = None,
             timing_error = Some (js ''Either '' @ [34] @ js ''at'' @ [34] @ js '' or '' @ [34] @ js ''in''
                                  @ [34] @ js '' must be specified for timing'')\<rparr>)"

text \<open>\<open>getNextCronRun\<close>: \<open>cron-parser\<close> started at \<open>new Date()\<close>; an exception gives null.\<close>

definition getNextCronRun :: "env \<Rightarrow> jsstring \<Rightarrow> jsstring \<Rightarrow> timestamp option" where
  "getNextCronRun e cronExpression tz = cron_next e cronExpression tz (clock e)"

section \<open>Webhook URL validation (utils/security.js)\<close>

definition BLOCKED_HOSTNAMES :: "jsstring list" where
  "BLOCKED_HOSTNAMES =
     [ js ''localhost'',
       js ''localhost.localdomain'',
       js ''*.local'',
       js ''*.localhost'',
       js ''metadata.google.internal'',
       js ''metadata.internal'',
       js ''169.254.169.254'',
       js ''instance-data'',
       js ''kubernetes.default.svc'',
       js ''*.kubernetes.default.svc'' ]"

definition hostname_blocked_by :: "jsstring \<Rightarrow> jsstring \<Rightarrow> bool" where
  "hostname_blocked_by hostname blocked =
     (if startsWith blocked (js ''*.'')
      then (let suffix = drop 1 blocked
            in endsWith hostname suffix \<or> hostname = drop 1 suffix)
      else hostname = blocked)"

text \<open>Hostnames are ASCII; \<open>toLowerCase\<close> is modelled on the ASCII letters.\<close>

definition toLowerCase :: "jsstring \<Rightarrow> jsstring" where
  "toLowerCase s = map lower_cu s"

record url_validation = validation +
  resolvedIps :: "jsstring list"

definition url_invalid :: "jsstring \<Rightarrow> url_validation" where
  "url_invalid msg = \<lparr>valid = False, error = Some msg, resolvedIps = []\<rparr>"

definition validateWebhookUrl :: "env \<Rightarrow> jsstring \<Rightarrow> url_validation" where
  "validateWebhookUrl e urlString =
     (case parse_url e urlString of
        Inl msg \<Rightarrow> url_invalid (js ''Invalid URL: '' @ msg)
      | Inr (protocol, host) \<Rightarrow>
          if protocol \<noteq> js ''https:'' \<and> protocol \<noteq> js ''http:''
          then url_invalid (js ''URL must use http or https protocol'')
          else if production e \<and> protocol \<noteq> js ''https:''
          then url_invalid (js ''HTTPS required in production'')
          else
            (let hostname = toLowerCase host
             in if list_ex (hostname_blocked_by hostname) BLOCKED_HOSTNAMES
                then url_invalid (js ''Hostname '' @ hostname @ js '' is blocked'')
                else if startsWith hostname (js ''['') \<and> endsWith hostname (js '']'') \<and>
                        isBlockedIP (butlast (tl hostname))
                then url_invalid (js ''IPv6 address '' @ butlast (tl hostname) @ js '' is blocked'')
                else if allowedWebhookDomains (conf e) \<noteq> [] \<and>
                        \<not> list_ex (\<lambda>domain. hostname = domain \<or> endsWith hostname (js ''.'' @ domain))
                             (allowedWebhookDomains (conf e))
                then url_invalid (js ''Domain '' @ hostname @ js '' not in allowlist'')
                else
                  (let looked_up = resolve4 e hostname @ resolve6 e hostname
                   in if looked_up = [] \<and> \<not> (isIPv4 e hostname \<or> isIPv6 e hostname)
                      then url_invalid (js ''DNS resolution failed for '' @ hostname)
                      else
                        (let ips = (if looked_up = [] then [hostname] else looked_up)
                         in case find isBlockedIP ips of
                              Some ip \<Rightarrow> url_invalid (js ''IP '' @ ip @ js '' is in a blocked range (SSRF protection)'')
                            | None \<Rightarrow> \<lparr>valid = True, error = None, resolvedIps = ips\<rparr>))))"

section \<open>Payload sanitization (utils/security.js)\<close>

definition dangerous :: "jsstring list" where
  "dangerous = [js ''__proto__'', js ''constructor'', js ''prototype'']"

text \<open>\<open>JSON.parse\<close> with the reviver: a property whose key is dangerous is dropped, at every
  depth.\<close>

fun revive :: "json \<Rightarrow> json" where
  "revive (JObj kvs) =
     JObj (filter (\<lambda>kv. fst kv \<notin> set dangerous) (map (\<lambda>kv. (fst kv, revive (snd kv))) kvs))"
| "revive (JArr vs) = JArr (map revive vs)"
| "revive v = v"

record payload_validation = validation +
  sanitized :: "json option"

definition sanitizePayload :: "env \<Rightarrow> json option \<Rightarrow> payload_validation" where
  "sanitizePayload e pl =
     (case pl of
        None \<Rightarrow> \<lparr>valid = True, error = None, sanitized = Some (JObj [])\<rparr>
      | Some p \<Rightarrow>
          if p = JNull then \<lparr>valid = True, error = None, sanitized = Some (JObj [])\<rparr>
          else if int (length (stringify e p)) > maxPayloadSizeBytes (conf e)
          then \<lparr>valid = False,
                error = Some (js ''Payload exceeds maximum size of '' @ show_int (maxPayloadSizeBytes (conf e))
                              @ js '' bytes''),
                sanitized = None\<rparr>
          else \<lparr>valid = True, error = None, sanitized = Some (revive p)\<rparr>)"

section \<open>HMAC signatures (utils/security.js)\<close>

text \<open>\<open>digest('hex')\<close> writes each byte as two lower-case hexadecimal digits.
  \<open>Buffer.from(s, 'hex')\<close> reads pairs of hexadecimal digits of either case and stops at the
  first pair that is not one (or at a last single digit).\<close>

definition hex_digit :: "nat \<Rightarrow> nat" where
  "hex_digit d = (if d < 10 then 48 + d else 87 + d)"

definition to_hex :: "8 word list \<Rightarrow> jsstring" where
  "to_hex bs = concat (map (\<lambda>b. [hex_digit (unat b div 16), hex_digit (unat b mod 16)]) bs)"

definition hex_value :: "nat \<Rightarrow> nat option" where
  "hex_value x =
     (if 48 \<le> x \<and> x \<le> 57 then Some (x - 48)
      else if 97 \<le> x \<and> x \<le> 102 then Some (x - 87)
      else if 65 \<le> x \<and> x \<le> 70 then Some (x - 55)
      else None)"

fun from_hex :: "jsstring \<Rightarrow> 8 word list" where
  "from_hex (a # b # rest) =
     (case (hex_value a, hex_value b) of
        (Some h, Some l) \<Rightarrow> of_nat (16 * h + l) # from_hex rest
      | _ \<Rightarrow> [])"
| "from_hex _ = []"

datatype signed_payload = PString jsstring | PObject json

definition generateHmacSignature :: "env \<Rightarrow> signed_payload \<Rightarrow> jsstring option \<Rightarrow> jsstring" where
  "generateHmacSignature e pl timestamp =
     (let message = (case pl of PString s \<Rightarrow> s | PObject v \<Rightarrow> stringify e v);
          signedContent = (if truthy timestamp then the timestamp @ js ''.'' @ message else message)
      in to_hex (hmac_sha256 e (hmacSecret (conf e)) signedContent))"

text \<open>\<open>crypto.timingSafeEqual\<close> throws when the two buffers differ in length; the handler of
  the exception answers \<open>Signature verification failed\<close>.\<close>

definition verifyHmacSignature ::
  "env \<Rightarrow> signed_payload \<Rightarrow> jsstring \<Rightarrow> jsstring option \<Rightarrow> int option \<Rightarrow> validation" where
  "verifyHmacSignature e pl signature timestamp maxAge =
     (let maxAgeMs = (case maxAge of None \<Rightarrow> 5 * 60 * 1000 | Some m \<Rightarrow> m);
          stale =
            (if truthy timestamp then
               (case parse_date e (the timestamp) of
                  None \<Rightarrow> Some (js ''Invalid timestamp format'')
                | Some timestampMs \<Rightarrow>
                    if \<bar>clock e - timestampMs\<bar> > maxAgeMs
                    then Some (js ''Timestamp too old or too far in future'')
                    else None)
             else None)
      in case stale of
           Some msg \<Rightarrow> invalid msg
         | None \<Rightarrow>
             (let expected = from_hex (generateHmacSignature e pl timestamp);
                  given = from_hex signature
              in if length expected \<noteq> length given
                 then invalid (js ''Signature verification failed'')
                 else \<lparr>valid = (expected = given), error = None\<rparr>))"

section \<open>The database and the other two tables\<close>

datatype execution_status = Running | Success | ExecFailed | Timeout | Skipped

record execution =
  execution_id :: jsstring
  exec_task_id :: jsstring
  executed_at :: timestamp
  completed_at :: "timestamp option"
  exec_status :: execution_status
  response_code :: "int option"
  response_body :: "jsstring option"
  error_message :: "jsstring option"
  duration_ms :: "int option"
  retry_number :: int
  request_url :: "jsstring option"
  request_payload :: json

record stored_notification =
  notification_task_id :: jsstring
  notification_payload :: json
  notification_created_at :: timestamp
  read_at :: "timestamp option"
  session_id :: "jsstring option"

record database =
  tasks :: task_table
  task_executions :: "execution list"
  stored_notifications :: "stored_notification list"

text \<open>A statement on the \<open>tasks\<close> table, run inside the database.\<close>

definition on_tasks :: "(task_table \<Rightarrow> 'a \<times> task_table) \<Rightarrow> database \<Rightarrow> 'a \<times> database" where
  "on_tasks q db = (case q (tasks db) of (r, tb) \<Rightarrow> (r, db\<lparr>tasks := tb\<rparr>))"

subsection \<open>ExecutionQueries (db/queries.js)\<close>

text \<open>\<open>ExecutionQueries.create\<close>; the id of the row is generated by the database and is
  taken here as an argument.  \<open>a || null\<close> turns an empty string into null.\<close>

definition execution_create ::
  "jsstring \<Rightarrow> jsstring \<Rightarrow> execution_status \<Rightarrow> jsstring option \<Rightarrow> json \<Rightarrow> timestamp
     \<Rightarrow> database \<Rightarrow> execution \<times> database" where
  "execution_create newId taskId st requestUrl requestPayload now db =
     (let x = \<lparr> execution_id = newId, exec_task_id = taskId, executed_at = now,
                 completed_at = None, exec_status = st, response_code = None,
                 response_body = None, error_message = None, duration_ms = None,
                 retry_number = 0, request_url = str_or_null requestUrl,
                 request_payload = requestPayload \<rparr>
      in (x, db\<lparr>task_executions := task_executions db @ [x]\<rparr>))"

definition execution_complete ::
  "jsstring \<Rightarrow> execution_status \<Rightarrow> int option \<Rightarrow> jsstring option \<Rightarrow> int \<Rightarrow> jsstring option
     \<Rightarrow> timestamp \<Rightarrow> database \<Rightarrow> database" where
  "execution_complete i st responseCode responseBody durationMs errorMessage now db =
     db\<lparr>task_executions :=
          map (\<lambda>x. if execution_id x = i
                    then x\<lparr>completed_at := Some now, exec_status := st,
                           response_code := responseCode, response_body := responseBody,
                           duration_ms := Some durationMs, error_message := errorMessage\<rparr>
                    else x) (task_executions db)\<rparr>"

text \<open>\<open>ExecutionQueries.getByTaskId\<close>: \<open>ORDER BY executed_at DESC LIMIT $2\<close>.\<close>

definition getByTaskId :: "jsstring \<Rightarrow> nat \<Rightarrow> database \<Rightarrow> execution list" where
  "getByTaskId taskId limit db =
     take limit (rev (sort_key executed_at (filter (\<lambda>x. exec_task_id x = taskId) (task_executions db))))"

section \<open>The tools (tools/*.js)\<close>

text \<open>
  The arguments of a tool call, as the input schemas type them; an absent property is
  \<open>None\<close>.  A handler either returns a reply or throws (\<open>Inl\<close>, the message of the error);
  \<open>Failure msg\<close> is the reply \<open>{success: false, error: msg}\<close>, \<open>Succeeded r\<close> a reply with
  \<open>success: true\<close>.  \<open>reply\<close> holds the rows and values the fields of a successful reply
  are read from; its \<open>message\<close> and the other texts for display are left out.
\<close>

record callback =
  c_type :: "jsstring option"
  c_url :: "jsstring option"
  c_channel :: "jsstring option"
  c_email :: "jsstring option"

record params =
  p_id :: "jsstring option"
  p_name :: "jsstring option"
  p_description :: "jsstring option"
  p_at :: "jsstring option"
  p_in :: "jsstring option"
  p_cron :: "jsstring option"
  p_timezone :: "jsstring option"
  p_callback :: "callback option"
  p_payload :: "json option"
  p_tags :: "jsstring list option"
  p_retries :: "int option"
  p_enabled :: "bool option"
  p_status :: "jsstring option"
  p_type :: "jsstring option"
  p_limit :: "int option"
  p_offset :: "int option"
  p_include_history :: "bool option"

record call_context =
  sessionId :: "jsstring option"

record reply =
  r_task :: "task option"
  r_tasks :: "task list"
  r_history :: "execution list"
  r_status :: "task_status option"
  r_previousStatus :: "task_status option"
  r_nextRunAt :: "timestamp option"

datatype tool_result = Failure jsstring | Succeeded reply

definition success :: "tool_result \<Rightarrow> bool" where
  "success r = (case r of Failure _ \<Rightarrow> False | Succeeded _ \<Rightarrow> True)"

definition empty_reply :: reply where
  "empty_reply = \<lparr> r_task = None, r_tasks = [], r_history = [], r_status = None,
                    r_previousStatus = None, r_nextRunAt = None \<rparr>"

type_synonym handler = "env \<Rightarrow> params \<Rightarrow> call_context \<Rightarrow> database \<Rightarrow> (jsstring + tool_result) \<times> database"

text \<open>An undefined value in a template literal.\<close>

definition shown :: "jsstring option \<Rightarrow> jsstring" where
  "shown v = (case v of None \<Rightarrow> js ''undefined'' | Some s \<Rightarrow> s)"

definition status_name :: "task_status \<Rightarrow> jsstring" where
  "status_name s = (case s of Active \<Rightarrow> js ''active'' | Paused \<Rightarrow> js ''paused''
      | Completed \<Rightarrow> js ''completed'' | Failed \<Rightarrow> js ''failed'' | Cancelled \<Rightarrow> js ''cancelled'')"

definition type_name :: "task_type \<Rightarrow> jsstring" where
  "type_name t = (case t of OneTime \<Rightarrow> js ''one_time'' | Recurring \<Rightarrow> js ''recurring'')"

definition quoted :: "jsstring \<Rightarrow> jsstring" where
  "quoted s = [34] @ s @ [34]"

text \<open>A query with an undefined id compares with NULL and finds no row.\<close>

definition find_task :: "jsstring option \<Rightarrow> database \<Rightarrow> task option" where
  "find_task i db = (case i of None \<Rightarrow> None | Some x \<Rightarrow> getById x (tasks db))"

text \<open>Reading a property of an undefined row throws a TypeError.\<close>

definition undefined_row :: jsstring where
  "undefined_row = js ''Cannot read properties of undefined''"

subsection \<open>cancel_task\<close>

definition cancel_task_handler :: handler where
  "cancel_task_handler e ps ctx db =
     (let failed = (\<lambda>msg. Inr (Failure (js ''Failed to cancel task: '' @ msg)))
      in case db_fault e QGetById of
           Some msg \<Rightarrow> (failed msg, db)
         | None \<Rightarrow>
            (case find_task (p_id ps) db of
               None \<Rightarrow> (Inr (Failure (js ''Task with ID '' @ shown (p_id ps) @ js '' not found'')), db)
             | Some t \<Rightarrow>
                 if status t = Cancelled then (Inr (Failure (js ''Task is already cancelled'')), db)
                 else if status t = Completed then (Inr (Failure (js ''Cannot cancel a completed task'')), db)
                 else
                   (case db_fault e QUpdateStatus of
                      Some msg \<Rightarrow> (failed msg, db)
                    | None \<Rightarrow>
                       (case on_tasks (cancel (task_id t) (clock e)) db of
                          (None, db') \<Rightarrow> (failed undefined_row, db')
                        | (Some updated, db') \<Rightarrow>
                            (Inr (Succeeded (empty_reply
                                    \<lparr> r_task := Some updated,
                                      r_status := Some (status updated),
                                      r_previousStatus := Some (status t) \<rparr>)), db')))))"

subsection \<open>pause_task and resume_task\<close>

definition pauseHandler :: handler where
  "pauseHandler e ps ctx db =
     (let failed = (\<lambda>msg. Inr (Failure (js ''Failed to pause task: '' @ msg)))
      in case db_fault e QGetById of
           Some msg \<Rightarrow> (failed msg, db)
         | None \<Rightarrow>
            (case find_task (p_id ps) db of
               None \<Rightarrow> (Inr (Failure (js ''Task with ID '' @ shown (p_id ps) @ js '' not found'')), db)
             | Some t \<Rightarrow>
                 if status t \<noteq> Active
                 then (Inr (Failure (js ''Cannot pause task with status '' @ quoted (status_name (status t)))), db)
                 else
                   (case db_fault e QUpdateStatus of
                      Some msg \<Rightarrow> (failed msg, db)
                    | None \<Rightarrow>
                       (case on_tasks (pause (task_id t) (clock e)) db of
                          (None, db') \<Rightarrow> (failed undefined_row, db')
                        | (Some updated, db') \<Rightarrow>
                            (Inr (Succeeded (empty_reply
                                    \<lparr> r_task := Some updated,
                                      r_status := Some (status updated) \<rparr>)), db')))))"

text \<open>
  \<open>resumeHandler\<close>.  \<open>nextRunAt\<close> starts as the stored \<open>next_run_at\<close> and is reassigned for a
  recurring task with a cron expression.  The test \<open>nextRunAt && nextRunAt !== task.next_run_at\<close>
  compares \<open>Date\<close> objects by identity: it holds exactly when \<open>nextRunAt\<close> was reassigned to
  a date (a new object), and fails when it is null or still the stored object.
\<close>

definition resumeHandler :: handler where
  "resumeHandler e ps ctx db =
     (let failed = (\<lambda>msg. Inr (Failure (js ''Failed to resume task: '' @ msg)))
      in case db_fault e QGetById of
           Some msg \<Rightarrow> (failed msg, db)
         | None \<Rightarrow>
            (case find_task (p_id ps) db of
               None \<Rightarrow> (Inr (Failure (js ''Task with ID '' @ shown (p_id ps) @ js '' not found'')), db)
             | Some t \<Rightarrow>
                 if status t \<noteq> Paused
                 then (Inr (Failure (js ''Cannot resume task with status '' @ quoted (status_name (status t)))), db)
                 else
                   (let reassigned = (task_type t = Recurring \<and> truthy (cron_expression t));
                        nextRunAt = (if reassigned
                                     then getNextCronRun e (the (cron_expression t)) (timezone t)
                                     else next_run_at t)
                    in case db_fault e QUpdateStatus of
                         Some msg \<Rightarrow> (failed msg, db)
                       | None \<Rightarrow>
                          (case on_tasks (resume (task_id t) (clock e)) db of
                             (updated, db1) \<Rightarrow>
                               (if reassigned \<and> nextRunAt \<noteq> None
                                then (case db_fault e QRecordExecution of
                                        Some msg \<Rightarrow> (failed msg, db1)
                                      | None \<Rightarrow>
                                          (case updated of
                                             None \<Rightarrow> (failed undefined_row,
                                                       snd (on_tasks (recordExecution (task_id t) nextRunAt False (clock e)) db1))
                                           | Some u \<Rightarrow>
                                               (Inr (Succeeded (empty_reply
                                                       \<lparr> r_task := Some u, r_status := Some Active,
                                                         r_nextRunAt := nextRunAt \<rparr>)),
                                                snd (on_tasks (recordExecution (task_id t) nextRunAt False (clock e)) db1))))
                                else (case updated of
                                        None \<Rightarrow> (failed undefined_row, db1)
                                      | Some u \<Rightarrow>
                                          (Inr (Succeeded (empty_reply
                                                  \<lparr> r_task := Some u, r_status := Some Active,
                                                    r_nextRunAt := nextRunAt \<rparr>)),
                                           db1)))))))"

subsection \<open>schedule_task\<close>

definition anonymous :: "call_context \<Rightarrow> jsstring" where
  "anonymous ctx = (if truthy (sessionId ctx) then the (sessionId ctx) else js ''anonymous'')"

definition limit_reached :: "env \<Rightarrow> jsstring" where
  "limit_reached e =
     js ''Maximum active tasks limit reached ('' @ show_int (maxActiveTasksPerUser (conf e)) @ js '')''"

definition schedule_task_handler :: handler where
  "schedule_task_handler e ps ctx db =
     (let timing = parseTimeInput e (p_at ps) (p_in ps)
      in case timing_error timing of
           Some msg \<Rightarrow> (Inr (Failure msg), db)
         | None \<Rightarrow>
      (case p_callback ps of
         None \<Rightarrow> (Inr (Failure (js ''Callback configuration with type is required'')), db)
       | Some cb \<Rightarrow>
      if \<not> truthy (c_type cb)
      then (Inr (Failure (js ''Callback configuration with type is required'')), db)
      else if c_type cb = Some (js ''webhook'') \<and> \<not> truthy (c_url cb)
      then (Inr (Failure (js ''Webhook URL is required for webhook callback type'')), db)
      else if c_type cb = Some (js ''webhook'') \<and> \<not> valid (validateWebhookUrl e (the (c_url cb)))
      then (Inr (Failure (js ''Invalid webhook URL: '' @ shown (error (validateWebhookUrl e (the (c_url cb)))))), db)
      else if c_type cb = Some (js ''email'') \<and> \<not> truthy (c_email cb)
      then (Inr (Failure (js ''Email address is required for email callback type'')), db)
      else
      (let payloadValidation = sanitizePayload e (p_payload ps)
       in if \<not> valid payloadValidation
          then (Inr (Failure (shown (error payloadValidation))), db)
          else
      (case db_fault e QCountActiveByUser of
         Some msg \<Rightarrow> (Inl msg, db)
       | None \<Rightarrow>
      if int (countActiveByUser (anonymous ctx) (tasks db)) \<ge> maxActiveTasksPerUser (conf e)
      then (Inr (Failure (limit_reached e)), db)
      else
      (case db_fault e QCreate of
         Some msg \<Rightarrow> (Inr (Failure (js ''Failed to create task: '' @ msg)), db)
       | None \<Rightarrow>
      (case create (uuidv4 e)
              \<lparr> n_name = p_name ps,
                n_description = p_description ps,
                n_taskType = OneTime,
                n_scheduledAt = scheduledAt timing,
                n_cronExpression = None,
                n_timezone = Some (if truthy (p_timezone ps) then the (p_timezone ps) else js ''UTC''),
                n_nextRunAt = None,
                n_callbackType = the (c_type cb),
                n_callbackConfig = \<lparr>url = c_url cb, channel = c_channel cb, email = c_email cb\<rparr>,
                n_payload = sanitized payloadValidation,
                n_maxRetries = Some (case p_retries ps of Some r \<Rightarrow> r | None \<Rightarrow> 3),
                n_retryDelaySeconds = Some 60,
                n_createdBy = Some (anonymous ctx),
                n_tags = Some (case p_tags ps of Some ts \<Rightarrow> ts | None \<Rightarrow> []) \<rparr>
              (clock e) (tasks db) of
         Inl msg \<Rightarrow> (Inr (Failure (js ''Failed to create task: '' @ msg)), db)
       | Inr (row, tb) \<Rightarrow>
           (Inr (Succeeded (empty_reply\<lparr>r_task := Some row, r_status := Some (status row)\<rparr>)),
            db\<lparr>tasks := tb\<rparr>)))))))"

subsection \<open>schedule_recurring\<close>

definition schedule_recurring_handler :: handler where
  "schedule_recurring_handler e ps ctx db =
     (let tz = (case p_timezone ps of None \<Rightarrow> js ''UTC'' | Some z \<Rightarrow> z);
          enabled = (case p_enabled ps of None \<Rightarrow> True | Some b \<Rightarrow> b);
          cronValidation = validateCronExpression (p_cron ps)
      in if \<not> valid cronValidation
         then (Inr (Failure (shown (error cronValidation))), db)
         else
      (case getNextCronRun e (the (p_cron ps)) tz of
         None \<Rightarrow> (Inr (Failure (js ''Failed to parse cron expression. Ensure format is: minute hour day month weekday'')), db)
       | Some nextRunAt \<Rightarrow>
      (case p_callback ps of
         None \<Rightarrow> (Inr (Failure (js ''Callback configuration with type is required'')), db)
       | Some cb \<Rightarrow>
      if \<not> truthy (c_type cb)
      then (Inr (Failure (js ''Callback configuration with type is required'')), db)
      else if c_type cb = Some (js ''webhook'') \<and> \<not> truthy (c_url cb)
      then (Inr (Failure (js ''Webhook URL is required'')), db)
      else if c_type cb = Some (js ''webhook'') \<and> \<not> valid (validateWebhookUrl e (the (c_url cb)))
      then (Inr (Failure (js ''Invalid webhook URL: '' @ shown (error (validateWebhookUrl e (the (c_url cb)))))), db)
      else
      (let payloadValidation = sanitizePayload e (p_payload ps)
       in if \<not> valid payloadValidation
          then (Inr (Failure (shown (error payloadValidation))), db)
          else
      (case db_fault e QCountActiveByUser of
         Some msg \<Rightarrow> (Inl msg, db)
       | None \<Rightarrow>
      if int (countActiveByUser (anonymous ctx) (tasks db)) \<ge> maxActiveTasksPerUser (conf e)
      then (Inr (Failure (limit_reached e)), db)
      else
      (case db_fault e QCreate of
         Some msg \<Rightarrow> (Inr (Failure (js ''Failed to create recurring task: '' @ msg)), db)
       | None \<Rightarrow>
      (case create (uuidv4 e)
              \<lparr> n_name = p_name ps,
                n_description = p_description ps,
                n_taskType = Recurring,
                n_scheduledAt = None,
                n_cronExpression = p_cron ps,
                n_timezone = Some tz,
                n_nextRunAt = Some nextRunAt,
                n_callbackType = the (c_type cb),
                n_callbackConfig = \<lparr>url = c_url cb, channel = c_channel cb, email = c_email cb\<rparr>,
                n_payload = sanitized payloadValidation,
                n_maxRetries = Some 3,
                n_retryDelaySeconds = Some 60,
                n_createdBy = Some (anonymous ctx),
                n_tags = Some (case p_tags ps of Some ts \<Rightarrow> ts | None \<Rightarrow> []) \<rparr>
              (clock e) (tasks db) of
         Inl msg \<Rightarrow> (Inr (Failure (js ''Failed to create recurring task: '' @ msg)), db)
       | Inr (row, tb) \<Rightarrow>
           (let db1 = db\<lparr>tasks := tb\<rparr>;
                answer = Inr (Succeeded (empty_reply
                           \<lparr>r_task := Some row, r_nextRunAt := next_run_at row,
                            r_status := Some (if enabled then Active else Paused)\<rparr>))
            in if enabled then (answer, db1)
               else (case db_fault e QUpdateStatus of
                       Some msg \<Rightarrow> (Inr (Failure (js ''Failed to create recurring task: '' @ msg)), db1)
                     | None \<Rightarrow> (answer, snd (on_tasks (pause (task_id row) (clock e)) db1)))))))))))"

subsection \<open>list_tasks and get_task\<close>

text \<open>\<open>TaskQueries.list\<close>: the filters that are set are conjoined; \<open>tags && $n\<close> holds when the
  two arrays share an element; a negative \<open>LIMIT\<close> is refused by the database.\<close>

definition list_limit :: "int \<Rightarrow> int" where
  "list_limit l = min (if l = 0 then 50 else l) 200"

definition list_offset :: "int \<Rightarrow> int" where
  "list_offset off = max off 0"

definition list_rows ::
  "jsstring option \<Rightarrow> jsstring option \<Rightarrow> jsstring option \<Rightarrow> jsstring list option \<Rightarrow> int \<Rightarrow> int
     \<Rightarrow> task_table \<Rightarrow> jsstring + task list" where
  "list_rows st ty createdBy tgs lim off tb =
     (let rows = filter (\<lambda>t.
            (truthy st \<and> st \<noteq> Some (js ''all'') \<longrightarrow> Some (status_name (status t)) = st) \<and>
            (truthy ty \<longrightarrow> Some (type_name (task_type t)) = ty) \<and>
            (truthy createdBy \<longrightarrow> created_by t = createdBy) \<and>
            (case tgs of None \<Rightarrow> True | Some [] \<Rightarrow> True
                       | Some wanted \<Rightarrow> list_ex (\<lambda>g. g \<in> set wanted) (tags t))) tb
      in if list_limit lim < 0 then Inl (js ''LIMIT must not be negative'')
         else Inr (take (nat (list_limit lim)) (drop (nat (list_offset off)) (rev (sort_key created_at rows)))))"

definition list_tasks_handler :: handler where
  "list_tasks_handler e ps ctx db =
     (let st = (case p_status ps of None \<Rightarrow> Some (js ''active'') | Some s \<Rightarrow> Some s);
          lim = (case p_limit ps of None \<Rightarrow> 50 | Some l \<Rightarrow> l);
          off = (case p_offset ps of None \<Rightarrow> 0 | Some x \<Rightarrow> x)
      in case db_fault e QList of
           Some msg \<Rightarrow> (Inr (Failure (js ''Failed to list tasks: '' @ msg)), db)
         | None \<Rightarrow>
            (case list_rows st (p_type ps) (sessionId ctx) (p_tags ps) (min lim 200) off (tasks db) of
               Inl msg \<Rightarrow> (Inr (Failure (js ''Failed to list tasks: '' @ msg)), db)
             | Inr rows \<Rightarrow> (Inr (Succeeded (empty_reply\<lparr>r_tasks := rows\<rparr>)), db)))"

definition get_task_handler :: handler where
  "get_task_handler e ps ctx db =
     (let failed = (\<lambda>msg. Inr (Failure (js ''Failed to get task: '' @ msg)));
          include_history = (case p_include_history ps of None \<Rightarrow> True | Some b \<Rightarrow> b)
      in case db_fault e QGetById of
           Some msg \<Rightarrow> (failed msg, db)
         | None \<Rightarrow>
            (case find_task (p_id ps) db of
               None \<Rightarrow> (Inr (Failure (js ''Task with ID '' @ shown (p_id ps) @ js '' not found'')), db)
             | Some t \<Rightarrow>
                 if include_history
                 then (case db_fault e QExecutionsByTask of
                         Some msg \<Rightarrow> (failed msg, db)
                       | None \<Rightarrow> (Inr (Succeeded (empty_reply
                                     \<lparr>r_task := Some t, r_status := Some (status t),
                                      r_history := getByTaskId (task_id t) 10 db\<rparr>)), db))
                 else (Inr (Succeeded (empty_reply\<lparr>r_task := Some t, r_status := Some (status t)\<rparr>)), db)))"

subsection \<open>The registry and executeTool (tools/index.js)\<close>

definition tools :: "(jsstring \<times> handler) list" where
  "tools =
     [ (js ''schedule_task'', schedule_task_handler),
       (js ''schedule_recurring'', schedule_recurring_handler),
       (js ''list_tasks'', list_tasks_handler),
       (js ''get_task'', get_task_handler),
       (js ''cancel_task'', cancel_task_handler),
       (js ''pause_task'', pauseHandler),
       (js ''resume_task'', resumeHandler) ]"

text \<open>\<open>new Map(entries)\<close>: a later entry with the same key replaces an earlier one.\<close>

definition toolHandlers_of :: "(jsstring \<times> handler) list \<Rightarrow> jsstring \<Rightarrow> handler option" where
  "toolHandlers_of registry = map_of (rev registry)"

text \<open>\<open>executeTool\<close> over a registry; the result type keeps the possibility of an exception
  leaving the function (\<open>Inl\<close>).\<close>

definition executeTool_of ::
  "(jsstring \<times> handler) list \<Rightarrow> env \<Rightarrow> jsstring \<Rightarrow> params \<Rightarrow> call_context \<Rightarrow> database
     \<Rightarrow> (jsstring + tool_result) \<times> database" where
  "executeTool_of registry e nm ps ctx db =
     (case toolHandlers_of registry nm of
        None \<Rightarrow> (Inr (Failure (js ''Unknown tool: '' @ nm)), db)
      | Some h \<Rightarrow>
          (case h e ps ctx db of
             (Inl msg, db') \<Rightarrow> (Inr (Failure (js ''Tool execution failed: '' @ msg)), db')
           | (Inr r, db') \<Rightarrow> (Inr r, db')))"

definition executeTool ::
  "env \<Rightarrow> jsstring \<Rightarrow> params \<Rightarrow> call_context \<Rightarrow> database \<Rightarrow> (jsstring + tool_result) \<times> database" where
  "executeTool = executeTool_of tools"

section \<open>The scheduler worker (workers/scheduler.js)\<close>

text \<open>The \<open>switch\<close> on \<open>callback_type\<close> inside \<open>executeTask\<close>, with its \<open>catch\<close>: an exception
  of a notifier or of the insert becomes \<open>{success: false, error}\<close>.\<close>

definition failed_dispatch :: "jsstring \<Rightarrow> dispatch_result" where
  "failed_dispatch msg = \<lparr>d_success = False, statusCode = None, body = None, d_error = Some msg\<rparr>"

definition dispatch :: "env \<Rightarrow> task \<Rightarrow> database \<Rightarrow> dispatch_result \<times> database" where
  "dispatch e t db =
     (if callback_type t \<in> set [js ''webhook'', js ''slack'', js ''email'']
      then (case notifier e (callback_type t) t of
              Inl msg \<Rightarrow> (failed_dispatch msg, db)
            | Inr result \<Rightarrow> (result, db))
      else if callback_type t = js ''store''
      then (case db_fault e QStoreNotification of
              Some msg \<Rightarrow> (failed_dispatch msg, db)
            | None \<Rightarrow>
                (\<lparr>d_success = True, statusCode = None, body = None, d_error = None\<rparr>,
                 db\<lparr>stored_notifications := stored_notifications db @
                      [\<lparr> notification_task_id = task_id t,
                         notification_payload =
                           JObj [(js ''task_id'', JStr (task_id t)), (js ''task_name'', JStr (name t)),
                                 (js ''executed_at'', JStr (toISOString e (clock e))), (js ''payload'', payload t)],
                         notification_created_at = clock e,
                         read_at = None,
                         session_id = created_by t \<rparr>]\<rparr>))
      else (failed_dispatch (js ''Unknown callback type: '' @ callback_type t), db))"

text \<open>\<open>x || null\<close> for a number: zero becomes null.\<close>

definition num_or_null :: "int option \<Rightarrow> int option" where
  "num_or_null v = (case v of None \<Rightarrow> None | Some n \<Rightarrow> if n = 0 then None else Some n)"

text \<open>\<open>getNextCronRun(task.cron_expression, task.timezone)\<close>; a null expression makes the
  parser throw, which gives null.\<close>

definition next_cron_run_of :: "env \<Rightarrow> task \<Rightarrow> timestamp option" where
  "next_cron_run_of e t =
     (case cron_expression t of None \<Rightarrow> None | Some c \<Rightarrow> getNextCronRun e c (timezone t))"

definition executeTask :: "env \<Rightarrow> task \<Rightarrow> database \<Rightarrow> (jsstring + dispatch_result) \<times> database" where
  "executeTask e t db =
     (case db_fault e QExecutionCreate of
        Some msg \<Rightarrow> (Inl msg, db)
      | None \<Rightarrow>
     (case execution_create (gen_random_uuid e) (task_id t) Running (url (callback_config t))
             (payload t) (clock e) db of
        (execution, db1) \<Rightarrow>
     (case dispatch e t db1 of
        (result, db2) \<Rightarrow>
     (case db_fault e QExecutionComplete of
        Some msg \<Rightarrow> (Inl msg, db2)
      | None \<Rightarrow>
     (let db3 = execution_complete (execution_id execution)
                  (if d_success result then Success else ExecFailed)
                  (num_or_null (statusCode result)) (str_or_null (body result))
                  (elapsed_ms e) (str_or_null (d_error result)) (clock e) db2
      in case db_fault e QRecordExecution of
           Some msg \<Rightarrow> (Inl msg, db3)
         | None \<Rightarrow>
             (case task_type t of
                OneTime \<Rightarrow>
                  (Inr result, snd (on_tasks (recordExecution (task_id t) None True (clock e)) db3))
              | Recurring \<Rightarrow>
                  (Inr result,
                   snd (on_tasks (recordExecution (task_id t) (next_cron_run_of e t) False (clock e)) db3))))))))"

text \<open>One turn of the loop of \<open>processDueTasks\<close> for a due task \<open>t\<close> and the worker
  \<open>workerId\<close>: the lease is tried; when it is obtained the task is executed, and unlocked if
  \<open>executeTask\<close> throws.  An exception of \<open>lockTask\<close> or \<open>unlockTask\<close> ends the loop (\<open>Inl\<close>).\<close>

datatype turn = Skipped_locked | Executed dispatch_result | Unlocked_after_error jsstring

definition process_task :: "env \<Rightarrow> jsstring \<Rightarrow> task \<Rightarrow> database \<Rightarrow> (jsstring + turn) \<times> database" where
  "process_task e workerId t db =
     (case db_fault e QLockTask of
        Some msg \<Rightarrow> (Inl msg, db)
      | None \<Rightarrow>
         (case on_tasks (lockTask (task_id t) workerId (clock e)) db of
            (None, db1) \<Rightarrow> (Inr Skipped_locked, db1)
          | (Some locked, db1) \<Rightarrow>
              (case executeTask e t db1 of
                 (Inr result, db2) \<Rightarrow> (Inr (Executed result), db2)
               | (Inl err, db2) \<Rightarrow>
                   (case db_fault e QUnlockTask of
                      Some msg \<Rightarrow> (Inl msg, db2)
                    | None \<Rightarrow> (Inr (Unlocked_after_error err),
                               snd (on_tasks (unlockTask (task_id t) (clock e)) db2))))))"

section \<open>Notions used in the statements\<close>

text \<open>The lease of task \<open>i\<close> is held: the row exists and every row with this id is locked.\<close>

definition lease_held :: "jsstring \<Rightarrow> task_table \<Rightarrow> bool" where
  "lease_held i db =
     ((\<exists>t\<in>set db. task_id t = i) \<and> (\<forall>t\<in>set db. task_id t = i \<longrightarrow> locked_at t \<noteq> None))"

text \<open>A row and an environment for the examples: a one-time webhook task that is due, and
  an environment in which no query rejects and the webhook answers with a failure.\<close>

definition demo_task :: task where
  "demo_task =
     \<lparr> task_id = js ''t1'', name = js ''ping'', description = None, task_type = OneTime,
       scheduled_at = Some 1000, cron_expression = None, timezone = js ''UTC'',
       next_run_at = Some 1000, callback_type = js ''webhook'',
       callback_config = \<lparr>url = Some (js ''https://example.com/hook''), channel = None, email = None\<rparr>,
       payload = JObj [], status = Active, max_retries = 3, retry_delay_seconds = 60,
       current_retry_count = 0, last_executed_at = None, execution_count = 0,
       created_at = 0, updated_at = 0, created_by = Some (js ''s1''), tags = [],
       locked_at = None, locked_by = None \<rparr>"

definition demo_conf :: config where
  "demo_conf = \<lparr> maxActiveTasksPerUser = 100, maxPayloadSizeBytes = 65536,
                  hmacSecret = js ''change-me-in-production'', allowedWebhookDomains = [] \<rparr>"

text \<open>The keyed digest of the example environment is a stand-in (the first bytes of key
  and message); no statement below depends on which function it is.\<close>

definition demo_digest :: "jsstring \<Rightarrow> jsstring \<Rightarrow> 8 word list" where
  "demo_digest k m = map of_nat (take 4 (k @ m))"

definition demo_parse_url :: "jsstring \<Rightarrow> jsstring + (jsstring \<times> jsstring)" where
  "demo_parse_url u =
     (if u = js ''https://example.com/hook'' then Inr (js ''https:'', js ''example.com'')
      else if u = js ''http://169.254.169.254/'' then Inr (js ''http:'', js ''169.254.169.254'')
      else Inl (js ''Invalid URL''))"

definition demo_parse_date :: "jsstring \<Rightarrow> timestamp option" where
  "demo_parse_date s = (if s = js ''1970-01-01T00:00:01.000Z'' then Some 1000 else None)"

definition demo_notifier :: "jsstring \<Rightarrow> task \<Rightarrow> jsstring + dispatch_result" where
  "demo_notifier ct t =
     Inr \<lparr> d_success = False, statusCode = Some 500, body = Some (js ''down''),
           d_error = Some (js ''HTTP 500: Internal Server Error'') \<rparr>"

definition demo_env :: env where
  "demo_env =
     \<lparr> clock = 2000, production = False, conf = demo_conf,
       parse_date = demo_parse_date,
       ms = (\<lambda>s. if s = js ''1s'' then Some 1000 else None),
       cron_next = (\<lambda>c tz now. Some (now + 60000)),
       parse_url = demo_parse_url,
       resolve4 = (\<lambda>h. if h = js ''example.com'' then [js ''93.184.216.34''] else []),
       resolve6 = (\<lambda>h. []),
       isIPv4 = (\<lambda>h. h = js ''169.254.169.254''),
       isIPv6 = (\<lambda>h. False),
       stringify = (\<lambda>v. js ''{}''),
       toISOString = (\<lambda>t. js ''1970-01-01T00:00:02.000Z''),
       hmac_sha256 = demo_digest,
       notifier = demo_notifier,
       uuidv4 = js ''t2'',
       gen_random_uuid = js ''x1'',
       elapsed_ms = 5,
       db_fault = (\<lambda>q. None) \<rparr>"

definition demo_db :: database where
  "demo_db = \<lparr> tasks = [demo_task], task_executions = [], stored_notifications = [] \<rparr>"

definition no_params :: params where
  "no_params =
     \<lparr> p_id = None, p_name = None, p_description = None, p_at = None, p_in = None,
       p_cron = None, p_timezone = None, p_callback = None, p_payload = None, p_tags = None,
       p_retries = None, p_enabled = None, p_status = None, p_type = None, p_limit = None,
       p_offset = None, p_include_history = None \<rparr>"

definition demo_context :: call_context where
  "demo_context = \<lparr> sessionId = Some (js ''s1'') \<rparr>"

text \<open>The same environment with the count query rejecting, and the arguments of a
  one-time task with a stored notification.\<close>

definition demo_env_count_rejects :: env where
  "demo_env_count_rejects =
     demo_env\<lparr>db_fault := (\<lambda>q. if q = QCountActiveByUser then Some (js ''connection refused'') else None)\<rparr>"

definition store_params :: params where
  "store_params =
     no_params\<lparr> p_name := Some (js ''remind''), p_in := Some (js ''1s''),
                p_callback := Some \<lparr>c_type = Some (js ''store''), c_url = None, c_channel = None, c_email = None\<rparr> \<rparr>"

text \<open>The call returned a reply with \<open>success: true\<close>.\<close>

definition succeeded :: "(jsstring + tool_result) \<times> database \<Rightarrow> bool" where
  "succeeded x = (case fst x of Inl _ \<Rightarrow> False | Inr r \<Rightarrow> success r)"

text \<open>A paused recurring task, never executed, and the arguments naming a task.\<close>

definition demo_recurring :: task where
  "demo_recurring =
     demo_task\<lparr> task_id := js ''r1'', task_type := Recurring, scheduled_at := None,
                cron_expression := Some (js ''0 9 * * 1''), next_run_at := Some 1000,
                status := Paused, callback_type := js ''store'' \<rparr>"

definition id_params :: "string \<Rightarrow> params" where
  "id_params i = no_params\<lparr>p_id := Some (js i)\<rparr>"

definition db_of :: "task list \<Rightarrow> database" where
  "db_of rows = \<lparr> tasks = rows, task_executions = [], stored_notifications = [] \<rparr>"

text \<open>The content \<open>generateHmacSignature\<close> signs, and the effective \<open>maxAgeMs\<close> of
  \<open>verifyHmacSignature\<close> (five minutes by default).\<close>

definition signed_content :: "env \<Rightarrow> signed_payload \<Rightarrow> jsstring option \<Rightarrow> jsstring" where
  "signed_content e pl timestamp =
     (if truthy timestamp then the timestamp @ js ''.'' else [])
       @ (case pl of PString s \<Rightarrow> s | PObject v \<Rightarrow> stringify e v)"

definition max_age :: "int option \<Rightarrow> int" where
  "max_age maxAge = (case maxAge of None \<Rightarrow> 300000 | Some m \<Rightarrow> m)"

text \<open>The timestamp is fresh: it parses and lies within the allowed skew of the clock.\<close>

definition fresh :: "env \<Rightarrow> jsstring option \<Rightarrow> int option \<Rightarrow> bool" where
  "fresh e timestamp maxAge =
     (case parse_date e (the timestamp) of
        None \<Rightarrow> False
      | Some timestampMs \<Rightarrow> \<bar>clock e - timestampMs\<bar> \<le> max_age maxAge)"

text \<open>The arguments of the scenario: a one-time task in one second, with a webhook at the
  metadata address.\<close>

definition metadata_params :: params where
  "metadata_params =
     no_params\<lparr> p_name := Some (js ''probe''), p_in := Some (js ''1s''),
                p_callback := Some \<lparr>c_type = Some (js ''webhook''),
                                    c_url = Some (js ''http://169.254.169.254/''),
                                    c_channel = None, c_email = None\<rparr> \<rparr>"

text \<open>The strings a pattern denotes, to state which addresses the block lists cover.\<close>

inductive_set repeated :: "jsstring set \<Rightarrow> jsstring set" for A :: "jsstring set" where
  none: "[] \<in> repeated A"
| more: "u \<in> A \<Longrightarrow> v \<in> repeated A \<Longrightarrow> u @ v \<in> repeated A"

fun lang :: "rx \<Rightarrow> jsstring set" where
  "lang Nul = {}"
| "lang Eps = {[]}"
| "lang (Cls p) = {[c] | c. p c}"
| "lang (Seq r s) = {u @ v | u v. u \<in> lang r \<and> v \<in> lang s}"
| "lang (Alt r s) = lang r \<union> lang s"
| "lang (Star r) = repeated (lang r)"

text \<open>Four runs of digits separated by dots, the shape of the group in the pattern for
  IPv4-mapped addresses.\<close>

definition dotted_quad :: rx where
  "dotted_quad =
     Seq (many1 digit) (Seq (chr CHR ''.'')
    (Seq (many1 digit) (Seq (chr CHR ''.'')
    (Seq (many1 digit) (Seq (chr CHR ''.'') (many1 digit))))))"

text \<open>No row has the status \<open>failed\<close>.  No statement of the repository writes this status,
  so every table the code produces from an empty one satisfies this (see the section on
  \<open>cancel_task\<close>).\<close>

definition never_failed :: "task_table \<Rightarrow> bool" where
  "never_failed tb = (\<forall>r\<in>set tb. status r \<noteq> Failed)"

section \<open>The lease\<close>

lemma update_where_none:
  "filter cond db = [] \<Longrightarrow> update_where cond f now db = (None, db)"
  by (simp add: update_where_def)

lemma lockTask_held_none:
  "\<forall>t\<in>set db. task_id t = i \<longrightarrow> locked_at t \<noteq> None \<Longrightarrow> lockTask i w now db = (None, db)"
  unfolding lockTask_def by (rule update_where_none) (auto simp: filter_empty_conv)

lemma update_where_rows:
  "snd (update_where cond f now db) = map (\<lambda>r. if cond r then touch now (f r) else r) db"
proof (cases "filter cond db")
  case Nil
  then have "\<forall>r\<in>set db. \<not> cond r" by (simp add: filter_empty_conv)
  then have "map (\<lambda>r. if cond r then touch now (f r) else r) db = db"
    by (induction db) auto
  with Nil show ?thesis by (simp add: update_where_def)
next
  case (Cons a as)
  then show ?thesis by (simp add: update_where_def)
qed

lemma lease_held_map:
  assumes "lease_held i db"
    and "\<And>t. t \<in> set db \<Longrightarrow> task_id (g t) = task_id t"
    and "\<And>t. t \<in> set db \<Longrightarrow> locked_at t \<noteq> None \<Longrightarrow> locked_at (g t) \<noteq> None"
  shows "lease_held i (map g db)"
  using assms unfolding lease_held_def by (auto simp: image_iff) 

lemma lease_held_lockTask: "lease_held i db \<Longrightarrow> lease_held i (snd (lockTask j w now db))"
  unfolding lockTask_def update_where_rows
  by (erule lease_held_map) (auto simp: touch_def)

lemma lease_held_updateStatus: "lease_held i db \<Longrightarrow> lease_held i (snd (updateStatus j s now db))"
  unfolding updateStatus_def update_where_rows
  by (erule lease_held_map) (auto simp: touch_def)

lemma lease_held_create:
  "lease_held i db \<Longrightarrow> create newId task now db = Inr (r, db') \<Longrightarrow> lease_held i db'"
  by (auto simp: create_def Let_def row_ok_def lease_held_def new_row_def split: if_splits)

lemma lease_held_step: "lease_held i db \<Longrightarrow> lease_held i (do_step st db)"
proof (cases st)
  case (Pair now op)
  assume h: "lease_held i db"
  show ?thesis
  proof (cases op)
    case (StepLock j w)
    with Pair h show ?thesis by (simp add: lease_held_lockTask)
  next
    case (StepUpdateStatus j s)
    with Pair h show ?thesis by (simp add: lease_held_updateStatus)
  next
    case (StepCreate newId task)
    with Pair h show ?thesis
      by (auto split: sum.splits dest: lease_held_create)
  qed
qed

lemma lease_held_run: "lease_held i db \<Longrightarrow> lease_held i (run_steps steps db)"
  unfolding run_steps_def
  by (induction steps arbitrary: db) (auto simp: lease_held_step)

lemma lockTask_success:
  assumes "lockTask i w now db = (Some t, db1)"
  shows "\<exists>t0\<in>set db. task_id t0 = i \<and> locked_at t0 = None \<and> status t0 = Active \<and>
           t = touch now (t0\<lparr>locked_at := Some now, locked_by := Some w\<rparr>)"
proof -
  let ?c = "\<lambda>t. task_id t = i \<and> locked_at t = None \<and> status t = Active"
  from assms obtain t0 rest where f: "filter ?c db = t0 # rest"
    and t: "t = touch now (t0\<lparr>locked_at := Some now, locked_by := Some w\<rparr>)"
    by (auto simp: lockTask_def update_where_def split: list.splits)
  from f have "t0 \<in> set (filter ?c db)" by simp
  then have "t0 \<in> set db \<and> ?c t0" by simp
  with t show ?thesis by auto
qed

lemma lockTask_acquires:
  assumes "unique_ids db" and "lockTask i w now db = (Some t, db1)"
  shows "lease_held i db1"
proof -
  from assms(2) have db1: "db1 = snd (lockTask i w now db)" by simp
  from lockTask_success[OF assms(2)] obtain t0
    where t0: "t0 \<in> set db" "task_id t0 = i" "locked_at t0 = None" "status t0 = Active" by auto
  have only: "\<And>r. r \<in> set db \<Longrightarrow> task_id r = i \<Longrightarrow> r = t0"
    using assms(1) t0 unfolding unique_ids_def by (metis distinct_map inj_onD)
  let ?g = "\<lambda>r. if task_id r = i \<and> locked_at r = None \<and> status r = Active
                then touch now (r\<lparr>locked_at := Some now, locked_by := Some w\<rparr>) else r"
  have rows: "db1 = map ?g db"
    unfolding db1 lockTask_def update_where_rows ..
  have "?g t0 \<in> set db1" using t0(1) unfolding rows set_map by (rule imageI)
  moreover have "task_id (?g t0) = i" using t0 by (simp add: touch_def)
  ultimately have ex: "\<exists>t\<in>set db1. task_id t = i" by blast
  have "\<forall>t\<in>set db1. task_id t = i \<longrightarrow> locked_at t \<noteq> None"
  proof
    fix r' assume "r' \<in> set db1"
    then obtain r where r: "r \<in> set db" "r' = ?g r" unfolding rows by auto
    show "task_id r' = i \<longrightarrow> locked_at r' \<noteq> None"
    proof
      assume "task_id r' = i"
      with r have "task_id r = i" by (simp add: touch_def split: if_splits)
      with only r(1) have "r = t0" by blast
      with r t0 show "locked_at r' \<noteq> None" by (simp add: touch_def)
    qed
  qed
  with ex show ?thesis by (simp add: lease_held_def)
qed

text \<open>
  Claim C1.  \<open>lockTask\<close> rewrites a row only when the row has \<open>locked_at IS NULL\<close> and
  \<open>status = 'active'\<close>, and the row it returns carries \<open>locked_at\<close> and \<open>locked_by\<close>.  Once a
  \<open>lockTask\<close> on task \<open>i\<close> has succeeded, every later \<open>lockTask\<close> on \<open>i\<close>, by any worker and
  after any number of statements other than \<open>unlockTask\<close>, \<open>recordExecution\<close> and the stale-lock
  cleanup (further lock attempts, status updates, inserts), returns null and leaves the
  table as it is.
\<close>

theorem lockTask_exclusive:
  assumes "unique_ids db"
    and "lockTask i w now db = (Some t, db1)"
  shows "locked_at t = Some now \<and> locked_by t = Some w \<and> status t = Active \<and>
         (\<exists>t0\<in>set db. task_id t0 = i \<and> locked_at t0 = None \<and> status t0 = Active) \<and>
         lockTask i w' now' (run_steps steps db1) = (None, run_steps steps db1)"
proof -
  from lockTask_success[OF assms(2)] have a: "locked_at t = Some now \<and> locked_by t = Some w \<and> status t = Active \<and>
         (\<exists>t0\<in>set db. task_id t0 = i \<and> locked_at t0 = None \<and> status t0 = Active)"
    by (auto simp: touch_def)
  have "lease_held i (run_steps steps db1)"
    using lockTask_acquires[OF assms] by (rule lease_held_run)
  then have "lockTask i w' now' (run_steps steps db1) = (None, run_steps steps db1)"
    by (intro lockTask_held_none) (simp add: lease_held_def)
  with a show ?thesis by simp
qed

lemma unique_ids_step: "unique_ids db \<Longrightarrow> unique_ids (do_step st db)"
proof (cases st)
  case (Pair now op)
  assume u: "unique_ids db"
  have upd: "\<And>cond f. (\<And>t. task_id (f t) = task_id t)
                \<Longrightarrow> unique_ids (snd (update_where cond f now db))"
  proof -
    fix cond and f :: "task \<Rightarrow> task"
    assume "\<And>t. task_id (f t) = task_id t"
    then have "map task_id (map (\<lambda>r. if cond r then touch now (f r) else r) db) = map task_id db"
      by (induction db) (auto simp: touch_def)
    with u show "unique_ids (snd (update_where cond f now db))"
      by (simp add: update_where_rows unique_ids_def del: map_map)
  qed
  show ?thesis
  proof (cases op)
    case (StepLock j w)
    with Pair show ?thesis by (simp add: lockTask_def upd)
  next
    case (StepUpdateStatus j s)
    with Pair show ?thesis by (simp add: updateStatus_def upd)
  next
    case (StepCreate newId task)
    with Pair u show ?thesis
      by (auto simp: create_def Let_def row_ok_def unique_ids_def split: if_splits)
  qed
qed

text \<open>The lease is free again after \<open>unlockTask\<close>, and after \<open>recordExecution\<close> of a task
  that stays active.\<close>

lemma unlockTask_releases:
  assumes "t \<in> set db" and "task_id t = i" and "status t = Active"
  shows "fst (lockTask i w now' (snd (unlockTask i now db))) \<noteq> None"
proof -
  let ?u = "touch now (t\<lparr>locked_at := None, locked_by := None\<rparr>)"
  have "?u \<in> set (snd (unlockTask i now db))"
    using assms(1,2) unfolding unlockTask_def update_where_rows by (auto simp: image_iff)
  moreover have "task_id ?u = i \<and> locked_at ?u = None \<and> status ?u = Active"
    using assms by (simp add: touch_def)
  ultimately have "filter (\<lambda>t. task_id t = i \<and> locked_at t = None \<and> status t = Active)
                     (snd (unlockTask i now db)) \<noteq> []"
    by (auto simp: filter_empty_conv)
  then show ?thesis
    by (auto simp: lockTask_def update_where_def split: list.splits)
qed

lemma recordExecution_releases:
  assumes "t \<in> set db" and "task_id t = i" and "status t = Active"
  shows "fst (lockTask i w now' (snd (recordExecution i nxt False now db))) \<noteq> None"
proof -
  let ?u = "touch now (t\<lparr>last_executed_at := Some now, execution_count := execution_count t + 1,
               next_run_at := nxt, status := status t, locked_at := None, locked_by := None\<rparr>)"
  have "?u \<in> set (snd (recordExecution i nxt False now db))"
    using assms(1,2) unfolding recordExecution_def update_where_rows by (auto simp: image_iff)
  moreover have "task_id ?u = i \<and> locked_at ?u = None \<and> status ?u = Active"
    using assms by (simp add: touch_def)
  ultimately have "filter (\<lambda>t. task_id t = i \<and> locked_at t = None \<and> status t = Active)
                     (snd (recordExecution i nxt False now db)) \<noteq> []"
    by (auto simp: filter_empty_conv)
  then show ?thesis
    by (auto simp: lockTask_def update_where_def split: list.splits)
qed

text \<open>A task whose lease is held is not among the due tasks the workers read.\<close>

lemma leased_not_due: "lease_held i db \<Longrightarrow> t \<in> set (due_tasks now db) \<Longrightarrow> task_id t \<noteq> i"
  by (auto simp: lease_held_def due_tasks_def)

theorem lockTask_exclusive_witness:
  "unique_ids [demo_task] \<and>
   fst (lockTask (js ''t1'') (js ''w1'') 2000 [demo_task]) \<noteq> None \<and>
   lockTask (js ''t1'') (js ''w2'') 2005
     (run_steps [(2001, StepLock (js ''t1'') (js ''w2'')), (2002, StepUpdateStatus (js ''t1'') Active)]
        (snd (lockTask (js ''t1'') (js ''w1'') 2000 [demo_task])))
   = (None,
      run_steps [(2001, StepLock (js ''t1'') (js ''w2'')), (2002, StepUpdateStatus (js ''t1'') Active)]
        (snd (lockTask (js ''t1'') (js ''w1'') 2000 [demo_task])))"
proof -
  have u: "unique_ids [demo_task]" by (simp add: unique_ids_def)
  obtain t db1 where l: "lockTask (js ''t1'') (js ''w1'') 2000 [demo_task] = (Some t, db1)"
    by (simp add: lockTask_def update_where_def demo_task_def)
  from lockTask_exclusive[OF u l] u l show ?thesis by simp
qed

section \<open>Facts about the matcher\<close>

lemmas rx_defs = chr_def chr_i_def between_def digit_def many1_def hex_i_def lower_cu_def anychar_def

lemma rmatch_Alt: "rmatch (Alt a b) s = (rmatch a s \<or> rmatch b s)"
  by (induction s arbitrary: a b) simp_all

lemma rmatch_Nul: "rmatch Nul s = False"
  by (induction s) simp_all

lemma rmatch_Seq_Nul: "rmatch (Seq Nul r) s = False"
  by (induction s) simp_all

lemma rmatch_Eps: "rmatch Eps s = (s = [])"
  by (cases s) (simp_all add: rmatch_Nul)

lemma rmatch_Seq_Eps_Star_Cls: "rmatch (Seq Eps (Star (Cls p))) s = list_all p s"
proof (induction s)
  case Nil
  show ?case by simp
next
  case (Cons c cs)
  show ?case
    by (cases "p c") (simp_all add: rmatch_Alt rmatch_Seq_Nul Cons.IH)
qed

lemma rmatch_many1_Cls: "rmatch (many1 (Cls p)) s = (s \<noteq> [] \<and> list_all p s)"
proof (cases s)
  case Nil
  then show ?thesis by (simp add: many1_def)
next
  case (Cons c cs)
  then show ?thesis
    by (cases "p c") (simp_all add: many1_def rmatch_Seq_Eps_Star_Cls rmatch_Seq_Nul)
qed

lemma rmatch_any_suffix: "rmatch (Seq Eps (Star anychar)) s"
  by (simp add: anychar_def rmatch_Seq_Eps_Star_Cls list_all_iff)

subsection \<open>The matcher decides membership in the language of the pattern\<close>

lemma nullable_lang: "nullable r = ([] \<in> lang r)"
  by (induction r) (auto intro: repeated.none)

lemma repeated_cons:
  "(c # s \<in> repeated A) = (\<exists>u v. s = u @ v \<and> c # u \<in> A \<and> v \<in> repeated A)"
proof
  assume "c # s \<in> repeated A"
  then show "\<exists>u v. s = u @ v \<and> c # u \<in> A \<and> v \<in> repeated A"
  proof (induction "c # s" rule: repeated.induct)
    case (more u v)
    show ?case
    proof (cases u)
      case Nil
      with more show ?thesis by simp
    next
      case (Cons d u')
      with more(1,2,4) show ?thesis by auto
    qed
  qed
next
  assume "\<exists>u v. s = u @ v \<and> c # u \<in> A \<and> v \<in> repeated A"
  then obtain u v where "s = u @ v" "c # u \<in> A" "v \<in> repeated A" by blast
  then show "c # s \<in> repeated A"
    using repeated.more[of "c # u" A v] by simp
qed

lemma deriv_lang: "(s \<in> lang (deriv c r)) = (c # s \<in> lang r)"
proof (induction r arbitrary: s)
  case (Seq r1 r2)
  have "(c # s \<in> lang (Seq r1 r2))
          = ((\<exists>u v. s = u @ v \<and> c # u \<in> lang r1 \<and> v \<in> lang r2) \<or> ([] \<in> lang r1 \<and> c # s \<in> lang r2))"
    by (auto simp: Cons_eq_append_conv)
  then show ?case
    using Seq.IH by (auto simp: nullable_lang)
next
  case (Star r)
  show ?case
    using Star.IH by (auto simp: repeated_cons)
qed auto

lemma rmatch_lang: "rmatch r s = (s \<in> lang r)"
  by (induction s arbitrary: r) (simp_all add: nullable_lang deriv_lang)

lemma repeated_anychar: "s \<in> repeated (lang anychar)"
proof (induction s)
  case Nil
  show ?case by (rule repeated.none)
next
  case (Cons c s)
  have "[c] \<in> lang anychar" by (simp add: anychar_def)
  from repeated.more[OF this Cons] show ?case by simp
qed

lemma test_Prefix: "test (Prefix r) s = (\<exists>u v. s = u @ v \<and> u \<in> lang r)"
  by (auto simp: rmatch_lang repeated_anychar)

lemma test_Whole: "test (Whole r) s = (s \<in> lang r)"
  by (simp add: rmatch_lang)

section \<open>The worker after a failed dispatch\<close>

lemma tasks_execution_create:
  "tasks (snd (execution_create i tid st u p now db)) = tasks db"
  by (simp add: execution_create_def Let_def)

lemma tasks_execution_complete:
  "tasks (execution_complete i st rc rb d em now db) = tasks db"
  by (simp add: execution_complete_def)

lemma tasks_dispatch: "tasks (snd (dispatch e t db)) = tasks db"
  by (simp add: dispatch_def split: sum.splits option.splits)

lemma tasks_on_tasks: "tasks (snd (on_tasks q db)) = snd (q (tasks db))"
  by (simp add: on_tasks_def split: prod.splits)

lemma executeTask_tasks:
  assumes "executeTask e t db = (Inr result, db')"
  shows "tasks db' = snd (recordExecution (task_id t)
                            (if task_type t = OneTime then None else next_cron_run_of e t)
                            (task_type t = OneTime) (clock e) (tasks db))"
proof -
  obtain x db1 where c: "execution_create (gen_random_uuid e) (task_id t) Running
      (url (callback_config t)) (payload t) (clock e) db = (x, db1)"
    by (cases "execution_create (gen_random_uuid e) (task_id t) Running
      (url (callback_config t)) (payload t) (clock e) db")
  obtain res db2 where d: "dispatch e t db1 = (res, db2)"
    by (cases "dispatch e t db1")
  from c have t1: "tasks db1 = tasks db"
    using tasks_execution_create[of "gen_random_uuid e" "task_id t" Running
        "url (callback_config t)" "payload t" "clock e" db] by simp
  from d have t2: "tasks db2 = tasks db1"
    using tasks_dispatch[of e t db1] by simp
  show ?thesis
    using assms c d t1 t2
    by (cases "task_type t")
       (auto simp: executeTask_def Let_def tasks_on_tasks tasks_execution_complete
             split: option.splits)
qed

lemma list_all2_map_self: "(\<And>r. P r (g r)) \<Longrightarrow> list_all2 P tb (map g tb)"
  by (induction tb) simp_all

lemma recordExecution_rows:
  "list_all2 (\<lambda>r r'. current_retry_count r' = current_retry_count r \<and>
                      max_retries r' = max_retries r \<and>
                      (status r' = status r \<or> (completed \<and> status r' = Completed)))
     tb (snd (recordExecution i nxt completed now tb))"
  unfolding recordExecution_def update_where_rows
proof (rule list_all2_map_self)
  fix r :: task
  show "current_retry_count (if task_id r = i then touch now
           (r\<lparr>last_executed_at := Some now, execution_count := execution_count r + 1,
              next_run_at := nxt, status := if completed then Completed else status r,
              locked_at := None, locked_by := None\<rparr>) else r) = current_retry_count r \<and>
        max_retries (if task_id r = i then touch now
           (r\<lparr>last_executed_at := Some now, execution_count := execution_count r + 1,
              next_run_at := nxt, status := if completed then Completed else status r,
              locked_at := None, locked_by := None\<rparr>) else r) = max_retries r \<and>
        (status (if task_id r = i then touch now
           (r\<lparr>last_executed_at := Some now, execution_count := execution_count r + 1,
              next_run_at := nxt, status := if completed then Completed else status r,
              locked_at := None, locked_by := None\<rparr>) else r) = status r \<or>
         (completed \<and> status (if task_id r = i then touch now
           (r\<lparr>last_executed_at := Some now, execution_count := execution_count r + 1,
              next_run_at := nxt, status := if completed then Completed else status r,
              locked_at := None, locked_by := None\<rparr>) else r) = Completed))"
    by (cases "task_id r = i"; cases completed) (simp_all add: touch_def)
qed

lemma recordExecution_row:
  assumes "r' \<in> set (snd (recordExecution i nxt completed now tb))" and "task_id r' = i"
  shows "locked_at r' = None \<and> last_executed_at r' = Some now \<and> next_run_at r' = nxt \<and>
         (completed \<longrightarrow> status r' = Completed)"
proof -
  let ?f = "\<lambda>r. r\<lparr>last_executed_at := Some now, execution_count := execution_count r + 1,
              next_run_at := nxt, status := if completed then Completed else status r,
              locked_at := None, locked_by := None\<rparr>"
  from assms(1) obtain r where r: "r \<in> set tb"
      and r': "r' = (if task_id r = i then touch now (?f r) else r)"
    unfolding recordExecution_def update_where_rows by auto
  show ?thesis
  proof (cases "task_id r = i")
    case True
    with r' have "r' = touch now (?f r)" by simp
    then show ?thesis by (simp add: touch_def)
  next
    case False
    with r' assms(2) show ?thesis by simp
  qed
qed

lemma dispatch_notifier:
  assumes "callback_type t = js ''webhook''" and "notifier e (js ''webhook'') t = Inr res"
  shows "dispatch e t db = (res, db)"
  using assms by (simp add: dispatch_def)

lemma executeTask_webhook:
  assumes "db_fault e QExecutionCreate = None" and "db_fault e QExecutionComplete = None"
    and "db_fault e QRecordExecution = None"
    and "callback_type t = js ''webhook''" and "notifier e (js ''webhook'') t = Inr res"
  shows "\<exists>db'. executeTask e t db = (Inr res, db')"
proof -
  obtain x db1 where c: "execution_create (gen_random_uuid e) (task_id t) Running
      (url (callback_config t)) (payload t) (clock e) db = (x, db1)"
    by (cases "execution_create (gen_random_uuid e) (task_id t) Running
      (url (callback_config t)) (payload t) (clock e) db")
  show ?thesis
    using assms(1-3) c dispatch_notifier[OF assms(4,5), of db1]
    by (cases "task_type t") (simp_all add: executeTask_def Let_def)
qed

lemma process_task_webhook:
  assumes "db_fault e QLockTask = None"
    and "db_fault e QExecutionCreate = None" and "db_fault e QExecutionComplete = None"
    and "db_fault e QRecordExecution = None"
    and "callback_type t = js ''webhook''" and "notifier e (js ''webhook'') t = Inr res"
    and "lockTask (task_id t) w (clock e) (tasks db) = (Some locked, tb)"
  shows "fst (process_task e w t db) = Inr (Executed res) \<and>
         tasks (snd (process_task e w t db))
           = snd (recordExecution (task_id t)
                    (if task_type t = OneTime then None else next_cron_run_of e t)
                    (task_type t = OneTime) (clock e) tb)"
proof -
  from executeTask_webhook[OF assms(2-6), of "db\<lparr>tasks := tb\<rparr>"]
  obtain db' where x: "executeTask e t (db\<lparr>tasks := tb\<rparr>) = (Inr res, db')" by blast
  from executeTask_tasks[OF x]
  have "tasks db' = snd (recordExecution (task_id t)
                    (if task_type t = OneTime then None else next_cron_run_of e t)
                    (task_type t = OneTime) (clock e) tb)"
    by simp
  with assms(1,7) x show ?thesis
    by (simp add: process_task_def on_tasks_def)
qed

lemma executions_dispatch: "task_executions (snd (dispatch e t db)) = task_executions db"
  by (simp add: dispatch_def split: sum.splits option.splits)

lemma executions_on_tasks: "task_executions (snd (on_tasks q db)) = task_executions db"
  by (simp add: on_tasks_def split: prod.splits)

lemma executeTask_executions:
  assumes "executeTask e t db = (Inr result, db')"
  shows "length (task_executions db') = Suc (length (task_executions db)) \<and>
         execution_id (last (task_executions db')) = gen_random_uuid e \<and>
         exec_task_id (last (task_executions db')) = task_id t \<and>
         exec_status (last (task_executions db')) = (if d_success result then Success else ExecFailed) \<and>
         error_message (last (task_executions db')) = str_or_null (d_error result) \<and>
         completed_at (last (task_executions db')) = Some (clock e)"
proof -
  let ?x = "\<lparr> execution_id = gen_random_uuid e, exec_task_id = task_id t, executed_at = clock e,
               completed_at = None, exec_status = Running, response_code = None,
               response_body = None, error_message = None, duration_ms = None,
               retry_number = 0, request_url = str_or_null (url (callback_config t)),
               request_payload = payload t \<rparr>"
  let ?db1 = "db\<lparr>task_executions := task_executions db @ [?x]\<rparr>"
  have c: "execution_create (gen_random_uuid e) (task_id t) Running
             (url (callback_config t)) (payload t) (clock e) db = (?x, ?db1)"
    by (simp add: execution_create_def Let_def)
  obtain res db2 where d: "dispatch e t ?db1 = (res, db2)"
    by (cases "dispatch e t ?db1")
  from d have x2: "task_executions db2 = task_executions db @ [?x]"
    using executions_dispatch[of e t ?db1] by simp
  let ?db3 = "execution_complete (gen_random_uuid e)
                (if d_success res then Success else ExecFailed)
                (num_or_null (statusCode res)) (str_or_null (body res))
                (elapsed_ms e) (str_or_null (d_error res)) (clock e) db2"
  from assms c d have r: "result = res"
    by (cases "task_type t") (auto simp: executeTask_def Let_def split: option.splits)
  from assms c d have "task_executions db' = task_executions ?db3"
    by (cases "task_type t")
       (auto simp: executeTask_def Let_def executions_on_tasks split: option.splits)
  then have all: "task_executions db'
      = map (\<lambda>x. if execution_id x = gen_random_uuid e
                  then x\<lparr>completed_at := Some (clock e),
                         exec_status := (if d_success res then Success else ExecFailed),
                         response_code := num_or_null (statusCode res),
                         response_body := str_or_null (body res),
                         duration_ms := Some (elapsed_ms e),
                         error_message := str_or_null (d_error res)\<rparr>
                  else x) (task_executions db @ [?x])"
    by (simp add: execution_complete_def x2)
  show ?thesis unfolding all r by (simp add: last_map)
qed

text \<open>
  Claim C2, as the code has it.  \<open>executeTask\<close> does not look at the outcome of the dispatch
  when it updates the task: whenever it returns (with \<open>success\<close> true or false), the \<open>tasks\<close>
  table is the one \<open>recordExecution\<close> gives, with \<open>completed\<close> set for a one-time task and
  with the next cron instant for a recurring one.  No row changes its
  \<open>current_retry_count\<close> or \<open>max_retries\<close>, no status becomes \<open>failed\<close> (a status stays, or
  becomes \<open>completed\<close> for a one-time task), and the executed row has its lease cleared and
  \<open>last_executed_at\<close> stamped.  The outcome is kept in the execution record only: the call
  adds one row to \<open>task_executions\<close>, for this task, and leaves it completed with status
  \<open>success\<close> or \<open>failed\<close> according to the dispatch and with the error of the dispatch as
  \<open>error_message\<close>.
\<close>

theorem executeTask_ignores_outcome:
  assumes "executeTask e t db = (Inr result, db')"
  shows "tasks db' = snd (recordExecution (task_id t)
                            (if task_type t = OneTime then None else next_cron_run_of e t)
                            (task_type t = OneTime) (clock e) (tasks db)) \<and>
         list_all2 (\<lambda>r r'. current_retry_count r' = current_retry_count r \<and>
                            max_retries r' = max_retries r \<and>
                            (status r' = status r \<or> (task_type t = OneTime \<and> status r' = Completed)))
           (tasks db) (tasks db') \<and>
         (\<forall>r'\<in>set (tasks db'). task_id r' = task_id t \<longrightarrow>
            locked_at r' = None \<and> last_executed_at r' = Some (clock e) \<and>
            next_run_at r' = (if task_type t = OneTime then None else next_cron_run_of e t) \<and>
            (task_type t = OneTime \<longrightarrow> status r' = Completed)) \<and>
         length (task_executions db') = Suc (length (task_executions db)) \<and>
         exec_task_id (last (task_executions db')) = task_id t \<and>
         exec_status (last (task_executions db')) = (if d_success result then Success else ExecFailed) \<and>
         error_message (last (task_executions db')) = str_or_null (d_error result) \<and>
         completed_at (last (task_executions db')) = Some (clock e)"
proof -
  let ?nxt = "if task_type t = OneTime then None else next_cron_run_of e t"
  let ?tb = "snd (recordExecution (task_id t) ?nxt (task_type t = OneTime) (clock e) (tasks db))"
  have eq: "tasks db' = ?tb" by (rule executeTask_tasks[OF assms])
  have rows: "list_all2 (\<lambda>r r'. current_retry_count r' = current_retry_count r \<and>
                            max_retries r' = max_retries r \<and>
                            (status r' = status r \<or> (task_type t = OneTime \<and> status r' = Completed)))
                (tasks db) ?tb"
    by (rule recordExecution_rows)
  have row: "\<forall>r'\<in>set ?tb. task_id r' = task_id t \<longrightarrow>
            locked_at r' = None \<and> last_executed_at r' = Some (clock e) \<and>
            next_run_at r' = ?nxt \<and> (task_type t = OneTime \<longrightarrow> status r' = Completed)"
    using recordExecution_row[of _ "task_id t" ?nxt "task_type t = OneTime" "clock e" "tasks db"]
    by blast
  have t3: "tasks db' = ?tb \<and>
         list_all2 (\<lambda>r r'. current_retry_count r' = current_retry_count r \<and>
                            max_retries r' = max_retries r \<and>
                            (status r' = status r \<or> (task_type t = OneTime \<and> status r' = Completed)))
           (tasks db) (tasks db') \<and>
         (\<forall>r'\<in>set (tasks db'). task_id r' = task_id t \<longrightarrow>
            locked_at r' = None \<and> last_executed_at r' = Some (clock e) \<and>
            next_run_at r' = ?nxt \<and> (task_type t = OneTime \<longrightarrow> status r' = Completed))"
    using rows row unfolding eq by (intro conjI) (rule refl)
  from executeTask_executions[OF assms]
  have x5: "length (task_executions db') = Suc (length (task_executions db)) \<and>
         exec_task_id (last (task_executions db')) = task_id t \<and>
         exec_status (last (task_executions db')) = (if d_success result then Success else ExecFailed) \<and>
         error_message (last (task_executions db')) = str_or_null (d_error result) \<and>
         completed_at (last (task_executions db')) = Some (clock e)"
    by blast
  from t3 x5 show ?thesis by blast
qed

theorem executeTask_ignores_outcome_witness:
  "d_success (case fst (executeTask demo_env demo_task demo_db) of Inr r \<Rightarrow> r) = False \<and>
   list_all2 (\<lambda>r r'. current_retry_count r' = current_retry_count r \<and>
                      max_retries r' = max_retries r \<and>
                      (status r' = status r \<or> (task_type demo_task = OneTime \<and> status r' = Completed)))
     (tasks demo_db) (tasks (snd (executeTask demo_env demo_task demo_db))) \<and>
   exec_status (last (task_executions (snd (executeTask demo_env demo_task demo_db)))) = ExecFailed \<and>
   error_message (last (task_executions (snd (executeTask demo_env demo_task demo_db))))
     = Some (js ''HTTP 500: Internal Server Error'')"
proof -
  have "\<exists>db'. executeTask demo_env demo_task demo_db
           = (Inr \<lparr> d_success = False, statusCode = Some 500, body = Some (js ''down''),
                    d_error = Some (js ''HTTP 500: Internal Server Error'') \<rparr>, db')"
    by (rule executeTask_webhook) (simp_all add: demo_env_def demo_task_def demo_notifier_def)
  then obtain result db' where x: "executeTask demo_env demo_task demo_db = (Inr result, db')"
    and f: "d_success result = False"
    and m: "d_error result = Some (js ''HTTP 500: Internal Server Error'')"
    by auto
  from executeTask_ignores_outcome[OF x]
  have l: "list_all2 (\<lambda>r r'. current_retry_count r' = current_retry_count r \<and>
                      max_retries r' = max_retries r \<and>
                      (status r' = status r \<or> (task_type demo_task = OneTime \<and> status r' = Completed)))
     (tasks demo_db) (tasks db')"
    by (rule conjunct1[OF conjunct2])
  have a: "fst (executeTask demo_env demo_task demo_db) = Inr result"
    and b: "snd (executeTask demo_env demo_task demo_db) = db'"
    using x by simp_all
  from executeTask_ignores_outcome[OF x] f m
  have st: "exec_status (last (task_executions db')) = ExecFailed"
    and em: "error_message (last (task_executions db')) = Some (js ''HTTP 500: Internal Server Error'')"
    by (simp_all add: str_or_null_def js_def)
  show ?thesis unfolding a b using f l st em by simp
qed

text \<open>
  The claim as worded fails.  The webhook of the due one-time task answers with a failure;
  the worker leases the task and executes it; afterwards the task is \<open>completed\<close>, its
  \<open>current_retry_count\<close> is still 0, it is not due and cannot be leased again.  For the
  recurring task the failed dispatch still advances \<open>next_run_at\<close>.
\<close>

theorem failed_webhook_is_not_retried:
  "fst (process_task demo_env (js ''w1'') demo_task demo_db)
     = Inr (Executed \<lparr> d_success = False, statusCode = Some 500, body = Some (js ''down''),
                        d_error = Some (js ''HTTP 500: Internal Server Error'') \<rparr>) \<and>
   map current_retry_count (tasks (snd (process_task demo_env (js ''w1'') demo_task demo_db))) = [0] \<and>
   map status (tasks (snd (process_task demo_env (js ''w1'') demo_task demo_db))) = [Completed] \<and>
   due_tasks 3000 (tasks (snd (process_task demo_env (js ''w1'') demo_task demo_db))) = [] \<and>
   fst (lockTask (js ''t1'') (js ''w2'') 3000
          (tasks (snd (process_task demo_env (js ''w1'') demo_task demo_db)))) = None \<and>
   map next_run_at
     (tasks (snd (process_task demo_env (js ''w1'')
        (demo_recurring\<lparr>status := Active, callback_type := js ''webhook''\<rparr>)
        (db_of [demo_recurring\<lparr>status := Active, callback_type := js ''webhook''\<rparr>])))) = [Some 62000]"
proof -
  let ?res = "\<lparr> d_success = False, statusCode = Some 500, body = Some (js ''down''),
                d_error = Some (js ''HTTP 500: Internal Server Error'') \<rparr>"
  let ?r = "demo_recurring\<lparr>status := Active, callback_type := js ''webhook''\<rparr>"
  have l1: "lockTask (task_id demo_task) (js ''w1'') (clock demo_env) (tasks demo_db)
              = (Some (demo_task\<lparr>locked_at := Some 2000, locked_by := Some (js ''w1''), updated_at := 2000\<rparr>),
                 [demo_task\<lparr>locked_at := Some 2000, locked_by := Some (js ''w1''), updated_at := 2000\<rparr>])"
    by (simp add: lockTask_def update_where_def touch_def demo_task_def demo_db_def demo_env_def)
  have p1: "fst (process_task demo_env (js ''w1'') demo_task demo_db) = Inr (Executed ?res) \<and>
            tasks (snd (process_task demo_env (js ''w1'') demo_task demo_db))
              = snd (recordExecution (task_id demo_task)
                       (if task_type demo_task = OneTime then None else next_cron_run_of demo_env demo_task)
                       (task_type demo_task = OneTime) (clock demo_env)
                       [demo_task\<lparr>locked_at := Some 2000, locked_by := Some (js ''w1''), updated_at := 2000\<rparr>])"
    by (rule process_task_webhook[OF _ _ _ _ _ _ l1])
       (simp_all add: demo_env_def demo_task_def demo_notifier_def)
  have t1: "tasks (snd (process_task demo_env (js ''w1'') demo_task demo_db))
              = [demo_task\<lparr>status := Completed, next_run_at := None, execution_count := 1,
                            last_executed_at := Some 2000, updated_at := 2000\<rparr>]"
    unfolding conjunct2[OF p1]
    by (simp add: recordExecution_def update_where_def touch_def demo_task_def demo_env_def)
  have l2: "lockTask (task_id ?r) (js ''w1'') (clock demo_env) (tasks (db_of [?r]))
              = (Some (?r\<lparr>locked_at := Some 2000, locked_by := Some (js ''w1''), updated_at := 2000\<rparr>),
                 [?r\<lparr>locked_at := Some 2000, locked_by := Some (js ''w1''), updated_at := 2000\<rparr>])"
    by (simp add: lockTask_def update_where_def touch_def demo_recurring_def demo_task_def db_of_def
        demo_env_def)
  have p2: "fst (process_task demo_env (js ''w1'') ?r (db_of [?r])) = Inr (Executed ?res) \<and>
            tasks (snd (process_task demo_env (js ''w1'') ?r (db_of [?r])))
              = snd (recordExecution (task_id ?r)
                       (if task_type ?r = OneTime then None else next_cron_run_of demo_env ?r)
                       (task_type ?r = OneTime) (clock demo_env)
                       [?r\<lparr>locked_at := Some 2000, locked_by := Some (js ''w1''), updated_at := 2000\<rparr>])"
    by (rule process_task_webhook[OF _ _ _ _ _ _ l2])
       (simp_all add: demo_env_def demo_recurring_def demo_task_def demo_notifier_def)
  have t2: "map next_run_at (tasks (snd (process_task demo_env (js ''w1'') ?r (db_of [?r])))) = [Some 62000]"
    unfolding conjunct2[OF p2]
    by (simp add: recordExecution_def update_where_def touch_def demo_recurring_def demo_task_def
        demo_env_def next_cron_run_of_def getNextCronRun_def)
  have d: "due_tasks 3000 [demo_task\<lparr>status := Completed, next_run_at := None, execution_count := 1,
                            last_executed_at := Some 2000, updated_at := 2000\<rparr>] = []"
    by (simp add: due_tasks_def)
  have k: "fst (lockTask (js ''t1'') (js ''w2'') 3000
                 [demo_task\<lparr>status := Completed, next_run_at := None, execution_count := 1,
                            last_executed_at := Some 2000, updated_at := 2000\<rparr>]) = None"
    by (simp add: lockTask_def update_where_def)
  have c: "current_retry_count demo_task = 0" by (simp add: demo_task_def)
  show ?thesis
    unfolding t1 t2 using conjunct1[OF p1] d k c by simp
qed

section \<open>The SSRF block lists\<close>

lemmas block_defs = isBlockedIP_def js_def BLOCKED_IPV4_PATTERNS_def BLOCKED_IPV6_PATTERNS_def
  ipv4Mapped_def

text \<open>What the patterns do cover of the two ranges: the first octet 224 and 240, and the
  mapped form through the unwrapping.\<close>

lemma isBlockedIP_covered:
  "isBlockedIP (js ''224.0.0.1'') \<and> isBlockedIP (js ''240.0.0.1'') \<and>
   isBlockedIP (js ''::ffff:224.0.0.1'') \<and> isBlockedIP (js ''fe80::1'') \<and>
   isBlockedIP (js ''fc00::1'') \<and> isBlockedIP (js ''fdab:1234::1'')"
  by (simp add: block_defs rx_defs)

lemma lang_SeqI: "u \<in> lang r \<Longrightarrow> v \<in> lang s \<Longrightarrow> u @ v \<in> lang (Seq r s)"
  by auto

lemma lang_lit: "js p \<in> lang (lit p)"
proof (induction p)
  case Nil
  show ?case by (simp add: js_def)
next
  case (Cons c p)
  have "[of_char c] \<in> lang (chr c)" by (simp add: chr_def)
  from lang_SeqI[OF this Cons] have "[of_char c] @ js p \<in> lang (Seq (chr c) (lit p))" .
  then show ?case by (simp add: js_def)
qed

lemma lang_lit_i: "js p \<in> lang (lit_i p)"
proof (induction p)
  case Nil
  show ?case by (simp add: js_def)
next
  case (Cons c p)
  have "[of_char c] \<in> lang (chr_i c)" by (simp add: chr_i_def)
  from lang_SeqI[OF this Cons] have "[of_char c] @ js p \<in> lang (Seq (chr_i c) (lit_i p))" .
  then show ?case by (simp add: js_def)
qed

lemma blocked_by_prefix:
  assumes "Prefix r \<in> set BLOCKED_IPV4_PATTERNS \<union> set BLOCKED_IPV6_PATTERNS" and "u \<in> lang r"
  shows "isBlockedIP (u @ rest)"
proof -
  have "test (Prefix r) (u @ rest)"
    unfolding test_Prefix using assms(2) by blast
  with assms(1) have "list_ex (\<lambda>p. test p (u @ rest)) BLOCKED_IPV4_PATTERNS \<or>
                      list_ex (\<lambda>p. test p (u @ rest)) BLOCKED_IPV6_PATTERNS"
    unfolding list_ex_iff by blast
  then show ?thesis by (auto simp: isBlockedIP_def)
qed

lemma blocked_by_whole:
  assumes "Whole r \<in> set BLOCKED_IPV4_PATTERNS \<union> set BLOCKED_IPV6_PATTERNS" and "u \<in> lang r"
  shows "isBlockedIP u"
proof -
  have "test (Whole r) u" unfolding test_Whole by (rule assms(2))
  with assms(1) have "list_ex (\<lambda>p. test p u) BLOCKED_IPV4_PATTERNS \<or>
                      list_ex (\<lambda>p. test p u) BLOCKED_IPV6_PATTERNS"
    unfolding list_ex_iff by blast
  then show ?thesis by (auto simp: isBlockedIP_def)
qed

text \<open>The IPv4 ranges of the claim that the patterns cover whole: every string that starts
  with the octets of the range (in decimal, \<open>digits\<close>) is blocked.  For 224.0.0.0/4 and
  240.0.0.0/4 only the first octets 224 and 240 are covered.\<close>

lemma second_octet_172:
  assumes "16 \<le> b" and "b \<le> 31"
  shows "digits b @ js ''.''
           \<in> lang (Seq (Alt (Seq (chr CHR ''1'') (between CHR ''6'' CHR ''9''))
                        (Alt (Seq (chr CHR ''2'') digit)
                             (Seq (chr CHR ''3'') (between CHR ''0'' CHR ''1''))))
                      (chr CHR ''.''))"
proof -
  have "list_all (\<lambda>b. rmatch (Seq (Alt (Seq (chr CHR ''1'') (between CHR ''6'' CHR ''9''))
                        (Alt (Seq (chr CHR ''2'') digit)
                             (Seq (chr CHR ''3'') (between CHR ''0'' CHR ''1''))))
                      (chr CHR ''.'')) (digits b @ js ''.'')) [16..<32]"
    by (simp add: upt_rec_numeral rx_defs js_def)
  moreover from assms have "b \<in> {16..<32}" by simp
  then have "b \<in> set [16..<32]" by (simp only: set_upt)
  ultimately show ?thesis
    unfolding list_all_iff rmatch_lang by blast
qed

lemma second_octet_100:
  assumes "64 \<le> b" and "b \<le> 127"
  shows "digits b @ js ''.''
           \<in> lang (Seq (Alt (Seq (chr CHR ''6'') (between CHR ''4'' CHR ''9''))
                        (Alt (Seq (between CHR ''7'' CHR ''9'') digit)
                             (Seq (chr CHR ''1'') (Seq (between CHR ''0'' CHR ''2'') digit))))
                      (chr CHR ''.''))"
proof -
  have "list_all (\<lambda>b. rmatch (Seq (Alt (Seq (chr CHR ''6'') (between CHR ''4'' CHR ''9''))
                        (Alt (Seq (between CHR ''7'' CHR ''9'') digit)
                             (Seq (chr CHR ''1'') (Seq (between CHR ''0'' CHR ''2'') digit))))
                      (chr CHR ''.'')) (digits b @ js ''.'')) [64..<128]"
    by (simp add: upt_rec_numeral rx_defs js_def)
  moreover from assms have "b \<in> {64..<128}" by simp
  then have "b \<in> set [64..<128]" by (simp only: set_upt)
  ultimately show ?thesis
    unfolding list_all_iff rmatch_lang by blast
qed

lemma isBlockedIP_ipv4_ranges:
  "isBlockedIP (js ''127.'' @ rest)"
  "isBlockedIP (js ''10.'' @ rest)"
  "16 \<le> b \<Longrightarrow> b \<le> 31 \<Longrightarrow> isBlockedIP (js ''172.'' @ digits b @ js ''.'' @ rest)"
  "isBlockedIP (js ''192.168.'' @ rest)"
  "isBlockedIP (js ''169.254.'' @ rest)"
  "isBlockedIP (js ''0.'' @ rest)"
  "64 \<le> b \<Longrightarrow> b \<le> 127 \<Longrightarrow> isBlockedIP (js ''100.'' @ digits b @ js ''.'' @ rest)"
  "isBlockedIP (js ''192.0.0.'' @ rest)"
  "isBlockedIP (js ''192.0.2.'' @ rest)"
  "isBlockedIP (js ''198.51.100.'' @ rest)"
  "isBlockedIP (js ''203.0.113.'' @ rest)"
  "isBlockedIP (js ''224.'' @ rest)"
  "isBlockedIP (js ''240.'' @ rest)"
  "isBlockedIP (js ''255.255.255.255'')"
proof -
  have m: "\<And>p. Prefix (lit p) \<in> set BLOCKED_IPV4_PATTERNS \<Longrightarrow> isBlockedIP (js p @ rest)"
    by (rule blocked_by_prefix[OF _ lang_lit]) simp
  show "isBlockedIP (js ''127.'' @ rest)" by (rule m) (simp add: BLOCKED_IPV4_PATTERNS_def)
  show "isBlockedIP (js ''10.'' @ rest)" by (rule m) (simp add: BLOCKED_IPV4_PATTERNS_def)
  show "isBlockedIP (js ''192.168.'' @ rest)" by (rule m) (simp add: BLOCKED_IPV4_PATTERNS_def)
  show "isBlockedIP (js ''169.254.'' @ rest)" by (rule m) (simp add: BLOCKED_IPV4_PATTERNS_def)
  show "isBlockedIP (js ''0.'' @ rest)" by (rule m) (simp add: BLOCKED_IPV4_PATTERNS_def)
  show "isBlockedIP (js ''192.0.0.'' @ rest)" by (rule m) (simp add: BLOCKED_IPV4_PATTERNS_def)
  show "isBlockedIP (js ''192.0.2.'' @ rest)" by (rule m) (simp add: BLOCKED_IPV4_PATTERNS_def)
  show "isBlockedIP (js ''198.51.100.'' @ rest)" by (rule m) (simp add: BLOCKED_IPV4_PATTERNS_def)
  show "isBlockedIP (js ''203.0.113.'' @ rest)" by (rule m) (simp add: BLOCKED_IPV4_PATTERNS_def)
  show "isBlockedIP (js ''224.'' @ rest)" by (rule m) (simp add: BLOCKED_IPV4_PATTERNS_def)
  show "isBlockedIP (js ''240.'' @ rest)" by (rule m) (simp add: BLOCKED_IPV4_PATTERNS_def)
  show "isBlockedIP (js ''255.255.255.255'')"
    by (rule blocked_by_whole[OF _ lang_lit]) (simp add: BLOCKED_IPV4_PATTERNS_def)
  show "isBlockedIP (js ''172.'' @ digits b @ js ''.'' @ rest)" if "16 \<le> b" "b \<le> 31"
  proof -
    have "js ''172.'' @ (digits b @ js ''.'') \<in> lang (Seq (lit ''172.'')
               (Seq (Alt (Seq (chr CHR ''1'') (between CHR ''6'' CHR ''9''))
                      (Alt (Seq (chr CHR ''2'') digit)
                           (Seq (chr CHR ''3'') (between CHR ''0'' CHR ''1''))))
                    (chr CHR ''.'')))"
      by (rule lang_SeqI[OF lang_lit second_octet_172[OF that]])
    from blocked_by_prefix[OF _ this, of rest] show ?thesis
      by (simp add: BLOCKED_IPV4_PATTERNS_def)
  qed
  show "isBlockedIP (js ''100.'' @ digits b @ js ''.'' @ rest)" if "64 \<le> b" "b \<le> 127"
  proof -
    have "js ''100.'' @ (digits b @ js ''.'') \<in> lang (Seq (lit ''100.'')
               (Seq (Alt (Seq (chr CHR ''6'') (between CHR ''4'' CHR ''9''))
                      (Alt (Seq (between CHR ''7'' CHR ''9'') digit)
                           (Seq (chr CHR ''1'') (Seq (between CHR ''0'' CHR ''2'') digit))))
                    (chr CHR ''.'')))"
      by (rule lang_SeqI[OF lang_lit second_octet_100[OF that]])
    from blocked_by_prefix[OF _ this, of rest] show ?thesis
      by (simp add: BLOCKED_IPV4_PATTERNS_def)
  qed
qed

text \<open>The IPv6 forms the patterns cover: the two exact addresses and every string that
  starts with one of the prefixes (here in lower case; the patterns ignore case).\<close>

lemma isBlockedIP_ipv6_prefixes:
  "isBlockedIP (js ''::1'')"
  "isBlockedIP (js ''::'')"
  "isBlockedIP (js ''fe80:'' @ rest)"
  "isBlockedIP (js ''fc00:'' @ rest)"
  "[h1] \<in> lang hex_i \<Longrightarrow> [h2] \<in> lang hex_i \<Longrightarrow> isBlockedIP (js ''fd'' @ [h1, h2] @ js '':'' @ rest)"
  "[h1] \<in> lang hex_i \<Longrightarrow> [h2] \<in> lang hex_i \<Longrightarrow> isBlockedIP (js ''ff'' @ [h1, h2] @ js '':'' @ rest)"
  "isBlockedIP (js ''2001:db8:'' @ rest)"
  "isBlockedIP (js ''100::'' @ rest)"
  "isBlockedIP (js ''64:ff9b:'' @ rest)"
proof -
  have m: "\<And>p. Prefix (lit_i p) \<in> set BLOCKED_IPV6_PATTERNS \<Longrightarrow> isBlockedIP (js p @ rest)"
    by (rule blocked_by_prefix[OF _ lang_lit_i]) simp
  show "isBlockedIP (js ''::1'')"
    by (rule blocked_by_whole[OF _ lang_lit_i]) (simp add: BLOCKED_IPV6_PATTERNS_def)
  show "isBlockedIP (js ''::'')"
    by (rule blocked_by_whole[OF _ lang_lit]) (simp add: BLOCKED_IPV6_PATTERNS_def)
  show "isBlockedIP (js ''fe80:'' @ rest)" by (rule m) (simp add: BLOCKED_IPV6_PATTERNS_def)
  show "isBlockedIP (js ''fc00:'' @ rest)" by (rule m) (simp add: BLOCKED_IPV6_PATTERNS_def)
  show "isBlockedIP (js ''2001:db8:'' @ rest)" by (rule m) (simp add: BLOCKED_IPV6_PATTERNS_def)
  show "isBlockedIP (js ''100::'' @ rest)" by (rule m) (simp add: BLOCKED_IPV6_PATTERNS_def)
  show "isBlockedIP (js ''64:ff9b:'' @ rest)" by (rule m) (simp add: BLOCKED_IPV6_PATTERNS_def)
  have colon: "js '':'' \<in> lang (chr CHR '':'')" by (simp add: chr_def js_def)
  have two: "\<And>p. [h1] \<in> lang hex_i \<Longrightarrow> [h2] \<in> lang hex_i \<Longrightarrow>
                js p @ ([h1] @ ([h2] @ js '':''))
                  \<in> lang (Seq (lit_i p) (Seq hex_i (Seq hex_i (chr CHR '':''))))"
    by (intro lang_SeqI lang_lit_i colon)
  show "isBlockedIP (js ''fd'' @ [h1, h2] @ js '':'' @ rest)"
    if "[h1] \<in> lang hex_i" "[h2] \<in> lang hex_i"
    using blocked_by_prefix[OF _ two[OF that, of "''fd''"], of rest]
    by (simp add: BLOCKED_IPV6_PATTERNS_def)
  show "isBlockedIP (js ''ff'' @ [h1, h2] @ js '':'' @ rest)"
    if "[h1] \<in> lang hex_i" "[h2] \<in> lang hex_i"
    using blocked_by_prefix[OF _ two[OF that, of "''ff''"], of rest]
    by (simp add: BLOCKED_IPV6_PATTERNS_def)
qed

text \<open>The unwrapping of IPv4-mapped addresses: a dotted quad that an IPv4 pattern matches
  is blocked in its mapped form too, whatever the case of \<open>::ffff:\<close>.\<close>

lemma isBlockedIP_mapped:
  assumes "v4 \<in> lang dotted_quad"
    and "list_ex (\<lambda>p. test p v4) BLOCKED_IPV4_PATTERNS"
  shows "isBlockedIP (js ''::ffff:'' @ v4)"
proof -
  have "js ''::ffff:'' @ v4 \<in> lang (Seq (lit_i ''::ffff:'') dotted_quad)"
    by (rule lang_SeqI[OF lang_lit_i assms(1)])
  then have "test ipv4Mapped (js ''::ffff:'' @ v4)"
    by (simp add: ipv4Mapped_def dotted_quad_def rmatch_lang del: lang.simps)
  moreover have "drop 7 (js ''::ffff:'' @ v4) = v4" by (simp add: js_def)
  ultimately show ?thesis
    using assms(2) by (simp add: isBlockedIP_def)
qed

text \<open>
  Claim C4 at addresses inside the listed ranges.  \<open>225.0.0.1\<close> lies in 224.0.0.0/4 (the
  pattern commented \<open>Multicast\<close> is \<open>/^224\./\<close>), \<open>241.0.0.1\<close> in 240.0.0.0/4 (\<open>Reserved\<close>,
  \<open>/^240\./\<close>), \<open>fe81::1\<close> in fe80::/10 (\<open>/^fe80:/\<close>) and \<open>fc01::1\<close> in fc00::/7 (\<open>/^fc00:/\<close>);
  \<open>isBlockedIP\<close> answers false for each of them, and for the IPv4-mapped forms of the two
  IPv4 addresses.
\<close>

theorem isBlockedIP_misses_ranges:
  "isBlockedIP (js ''225.0.0.1'') = False \<and>
   isBlockedIP (js ''241.0.0.1'') = False \<and>
   isBlockedIP (js ''::ffff:225.0.0.1'') = False \<and>
   isBlockedIP (js ''::ffff:241.0.0.1'') = False \<and>
   isBlockedIP (js ''fe81::1'') = False \<and>
   isBlockedIP (js ''fc01::1'') = False"
  by (simp add: block_defs rx_defs)

section \<open>The cron whitelist\<close>

lemma test_allowedCharsRegex:
  "test allowedCharsRegex s = (s \<noteq> [] \<and> (\<forall>c\<in>set s. allowed_char c))"
  by (simp add: allowedCharsRegex_def rmatch_many1_Cls list_all_iff)

text \<open>
  Claim C5, as the code has it.  The class of the source is \<open>[0-9\s,\-*/LW#?]\<close>, and \<open>\s\<close> is
  every white-space and line-terminator code unit of JavaScript (tab, line feed, vertical
  tab, form feed, carriage return, space, no-break space and the Unicode spaces), not only
  space and tab.  A string that has a code unit outside this class is answered with
  \<open>valid: false\<close> and the message about invalid characters; so are the undefined and the
  empty argument.
\<close>

theorem validateCronExpression_whitelist:
  "(\<exists>c\<in>set s. \<not> allowed_char c) \<longrightarrow>
     valid (validateCronExpression (Some s)) = False \<and>
     error (validateCronExpression (Some s)) \<noteq> None"
  by (auto simp: validateCronExpression_def test_allowedCharsRegex invalid_def Let_def truthy_def)

theorem validateCronExpression_whitelist_witness:
  "(\<exists>c\<in>set (js ''0 9 * * *; curl evil.com''). \<not> allowed_char c) \<and>
   valid (validateCronExpression (Some (js ''0 9 * * *; curl evil.com''))) = False"
proof -
  have "(59::nat) \<in> set (js ''0 9 * * *; curl evil.com'')"
    by (simp add: js_def)
  moreover have "\<not> allowed_char 59"
    by (simp add: allowed_char_def is_space_def js_def)
  ultimately have h: "\<exists>c\<in>set (js ''0 9 * * *; curl evil.com''). \<not> allowed_char c"
    by blast
  with validateCronExpression_whitelist[of "js ''0 9 * * *; curl evil.com''"]
  show ?thesis by blast
qed

text \<open>
  The claim as worded fails: a line feed is outside \<open>[0-9 \t,\-*/LW#?]\<close>, and the expression
  \<open>0 9 * *\<close>, line feed, \<open>1\<close> is accepted (the line feed is in \<open>\s\<close> and separates the fields).
\<close>

theorem validateCronExpression_newline_accepted:
  "10 \<in> set (js ''0 9 * *'' @ [10] @ js ''1'') \<and>
   10 \<notin> set (js ''0123456789'' @ [32, 9] @ js '',-*/LW#?'') \<and>
   valid (validateCronExpression (Some (js ''0 9 * *'' @ [10] @ js ''1''))) = True"
  by (simp add: validateCronExpression_def js_def allowedCharsRegex_def allowed_char_def
      is_space_def trim_def rx_defs ok_def invalid_def truthy_def)

section \<open>HMAC verification\<close>

lemma hex_value_hex_digit: "d < 16 \<Longrightarrow> hex_value (hex_digit d) = Some d"
  by (auto simp: hex_value_def hex_digit_def)

lemma from_hex_to_hex: "from_hex (to_hex bs) = bs"
proof (induction bs)
  case Nil
  show ?case by (simp add: to_hex_def)
next
  case (Cons b bs)
  have lt: "unat b < 256" using unsigned_less[of b] by simp
  then have hi: "unat b div 16 < 16" and lo: "unat b mod 16 < 16" by simp_all
  have "of_nat (16 * (unat b div 16) + unat b mod 16) = (of_nat (unat b) :: 8 word)"
    by simp
  then have whole: "(of_nat (16 * (unat b div 16) + unat b mod 16) :: 8 word) = b" by simp
  have "to_hex (b # bs) = hex_digit (unat b div 16) # hex_digit (unat b mod 16) # to_hex bs"
    by (simp add: to_hex_def)
  then show ?case
    using Cons.IH whole by (simp add: hex_value_hex_digit[OF hi] hex_value_hex_digit[OF lo])
qed

lemma generateHmacSignature_eq:
  "generateHmacSignature e pl ts = to_hex (hmac_sha256 e (hmacSecret (conf e)) (signed_content e pl ts))"
  by (simp add: generateHmacSignature_def signed_content_def Let_def)

lemma verify_stale:
  "truthy ts \<Longrightarrow> \<not> fresh e ts maxAge \<Longrightarrow>
     valid (verifyHmacSignature e pl sg ts maxAge) = False \<and>
     error (verifyHmacSignature e pl sg ts maxAge) \<noteq> None"
  by (auto simp: verifyHmacSignature_def fresh_def max_age_def invalid_def Let_def
      split: option.splits)

lemma verify_fresh:
  assumes "\<not> truthy ts \<or> fresh e ts maxAge"
  shows "valid (verifyHmacSignature e pl sg ts maxAge)
           = (from_hex sg = hmac_sha256 e (hmacSecret (conf e)) (signed_content e pl ts))"
proof -
  have age: "(case maxAge of None \<Rightarrow> 5 * 60 * 1000 | Some m \<Rightarrow> m) = max_age maxAge"
    by (simp add: max_age_def split: option.splits)
  have stale: "(if truthy ts then
               (case parse_date e (the ts) of
                  None \<Rightarrow> Some (js ''Invalid timestamp format'')
                | Some timestampMs \<Rightarrow>
                    if \<bar>clock e - timestampMs\<bar> > max_age maxAge
                    then Some (js ''Timestamp too old or too far in future'')
                    else None)
             else None) = None"
    using assms by (auto simp: fresh_def split: option.splits)
  show ?thesis
    unfolding verifyHmacSignature_def Let_def age stale
    by (auto simp: generateHmacSignature_eq from_hex_to_hex invalid_def)
qed

text \<open>
  Claim C6, as the code has it.  The checks on the timestamp are made only when a
  timestamp is given and not empty (\<open>if (timestamp)\<close>): then the call fails when the timestamp
  does not parse, and fails when \<open>|now - timestamp| > maxAgeMs\<close> (300000 by default).
  Otherwise, also with an absent or empty timestamp, it succeeds exactly when the bytes
  that \<open>Buffer.from(signature, 'hex')\<close> decodes are the HMAC digest of the signed content
  (\<open>timestamp.payload\<close>, or the payload alone without a timestamp); a decoded length other
  than the digest's fails.  So \<open>verify(p, sign(p, t), t)\<close> succeeds exactly when \<open>t\<close> is absent,
  empty, or parses to an instant within \<open>maxAgeMs\<close> of now.
\<close>

theorem verifyHmacSignature_spec:
  "(truthy ts \<and> parse_date e (the ts) = None \<longrightarrow>
      valid (verifyHmacSignature e pl sg ts maxAge) = False) \<and>
   (truthy ts \<and> (\<exists>m. parse_date e (the ts) = Some m \<and> \<bar>clock e - m\<bar> > max_age maxAge) \<longrightarrow>
      valid (verifyHmacSignature e pl sg ts maxAge) = False) \<and>
   (\<not> truthy ts \<or> fresh e ts maxAge \<longrightarrow>
      valid (verifyHmacSignature e pl sg ts maxAge)
        = (from_hex sg = hmac_sha256 e (hmacSecret (conf e)) (signed_content e pl ts))) \<and>
   (length (from_hex sg) \<noteq> length (hmac_sha256 e (hmacSecret (conf e)) (signed_content e pl ts)) \<longrightarrow>
      valid (verifyHmacSignature e pl sg ts maxAge) = False) \<and>
   valid (verifyHmacSignature e pl (generateHmacSignature e pl ts) ts maxAge)
     = (\<not> truthy ts \<or> fresh e ts maxAge)"
proof (intro conjI impI)
  assume "truthy ts \<and> parse_date e (the ts) = None"
  then show "valid (verifyHmacSignature e pl sg ts maxAge) = False"
    using verify_stale[of ts e maxAge pl sg] by (simp add: fresh_def)
next
  assume "truthy ts \<and> (\<exists>m. parse_date e (the ts) = Some m \<and> \<bar>clock e - m\<bar> > max_age maxAge)"
  then show "valid (verifyHmacSignature e pl sg ts maxAge) = False"
    using verify_stale[of ts e maxAge pl sg] by (auto simp: fresh_def)
next
  assume "\<not> truthy ts \<or> fresh e ts maxAge"
  then show "valid (verifyHmacSignature e pl sg ts maxAge)
        = (from_hex sg = hmac_sha256 e (hmacSecret (conf e)) (signed_content e pl ts))"
    by (rule verify_fresh)
next
  assume l: "length (from_hex sg) \<noteq> length (hmac_sha256 e (hmacSecret (conf e)) (signed_content e pl ts))"
  show "valid (verifyHmacSignature e pl sg ts maxAge) = False"
  proof (cases "\<not> truthy ts \<or> fresh e ts maxAge")
    case True
    from verify_fresh[OF True, of pl sg] l show ?thesis by auto
  next
    case False
    then show ?thesis using verify_stale[of ts e maxAge pl sg] by simp
  qed
next
  show "valid (verifyHmacSignature e pl (generateHmacSignature e pl ts) ts maxAge)
          = (\<not> truthy ts \<or> fresh e ts maxAge)"
  proof (cases "\<not> truthy ts \<or> fresh e ts maxAge")
    case True
    from verify_fresh[OF True, of pl "generateHmacSignature e pl ts"] True show ?thesis
      by (simp add: generateHmacSignature_eq from_hex_to_hex)
  next
    case False
    then show ?thesis
      using verify_stale[of ts e maxAge pl "generateHmacSignature e pl ts"] by simp
  qed
qed

theorem verifyHmacSignature_spec_witness:
  "valid (verifyHmacSignature demo_env (PString (js ''{}''))
            (generateHmacSignature demo_env (PString (js ''{}'')) (Some (js ''1970-01-01T00:00:01.000Z'')))
            (Some (js ''1970-01-01T00:00:01.000Z'')) None) = True \<and>
   valid (verifyHmacSignature demo_env (PString (js ''{}''))
            (generateHmacSignature demo_env (PString (js ''{}'')) (Some (js ''1970-01-01T00:00:01.000Z'')))
            (Some (js ''1970-01-01T00:00:01.000Z'')) (Some 500)) = False \<and>
   valid (verifyHmacSignature demo_env (PString (js ''{}'')) (js ''00'')
            (Some (js ''yesterday'')) None) = False"
proof -
  have t: "truthy (Some (js ''1970-01-01T00:00:01.000Z''))" "truthy (Some (js ''yesterday''))"
    by (simp_all add: truthy_def js_def)
  have p: "parse_date demo_env (js ''1970-01-01T00:00:01.000Z'') = Some 1000"
    by (simp add: demo_env_def demo_parse_date_def)
  have q: "parse_date demo_env (js ''yesterday'') = None"
    by (simp add: demo_env_def demo_parse_date_def js_def)
  have c: "clock demo_env = 2000" by (simp add: demo_env_def)
  have f1: "fresh demo_env (Some (js ''1970-01-01T00:00:01.000Z'')) None"
    by (simp add: fresh_def p c max_age_def)
  have f2: "\<not> fresh demo_env (Some (js ''1970-01-01T00:00:01.000Z'')) (Some 500)"
    by (simp add: fresh_def p c max_age_def)
  from verifyHmacSignature_spec[of "Some (js ''1970-01-01T00:00:01.000Z'')" demo_env "PString (js ''{}'')" _ None] f1
  have a: "valid (verifyHmacSignature demo_env (PString (js ''{}''))
            (generateHmacSignature demo_env (PString (js ''{}'')) (Some (js ''1970-01-01T00:00:01.000Z'')))
            (Some (js ''1970-01-01T00:00:01.000Z'')) None) = True"
    by blast
  from verifyHmacSignature_spec[of "Some (js ''1970-01-01T00:00:01.000Z'')" demo_env "PString (js ''{}'')" _ "Some 500"] f2 t(1)
  have b: "valid (verifyHmacSignature demo_env (PString (js ''{}''))
            (generateHmacSignature demo_env (PString (js ''{}'')) (Some (js ''1970-01-01T00:00:01.000Z'')))
            (Some (js ''1970-01-01T00:00:01.000Z'')) (Some 500)) = False"
    by blast
  from verifyHmacSignature_spec[of "Some (js ''yesterday'')" demo_env "PString (js ''{}'')" "js ''00''" None] t(2) q
  have d: "valid (verifyHmacSignature demo_env (PString (js ''{}'')) (js ''00'')
            (Some (js ''yesterday'')) None) = False"
    by simp
  from a b d show ?thesis by simp
qed

text \<open>
  The claim as worded fails twice.  The empty timestamp does not parse, yet the signature
  of the payload alone is accepted with it, whatever the clock says; and a signature that
  differs from the computed one only in the case of its hexadecimal letters is accepted.
\<close>

theorem verifyHmacSignature_empty_timestamp:
  "parse_date demo_env (js '''') = None \<and>
   valid (verifyHmacSignature demo_env (PString (js ''{}''))
            (generateHmacSignature demo_env (PString (js ''{}'')) (Some (js '''')))
            (Some (js '''')) None) = True \<and>
   generateHmacSignature demo_env (PString (js ''{}'')) None = js ''6368616e'' \<and>
   js ''6368616E'' \<noteq> js ''6368616e'' \<and>
   valid (verifyHmacSignature demo_env (PString (js ''{}'')) (js ''6368616E'') None None) = True"
proof -
  have a: "parse_date demo_env (js '''') = None"
    by (simp add: demo_env_def demo_parse_date_def js_def)
  have n: "\<not> truthy (Some (js ''''))" "\<not> truthy None" by (simp_all add: truthy_def js_def)
  have b: "valid (verifyHmacSignature demo_env (PString (js ''{}''))
            (generateHmacSignature demo_env (PString (js ''{}'')) (Some (js '''')))
            (Some (js '''')) None) = True"
    using verify_fresh[of "Some (js '''')" demo_env None "PString (js ''{}'')"
        "generateHmacSignature demo_env (PString (js ''{}'')) (Some (js ''''))"] n(1)
    by (simp add: generateHmacSignature_eq from_hex_to_hex)
  have dg: "hmac_sha256 demo_env (hmacSecret (conf demo_env)) (signed_content demo_env (PString (js ''{}'')) None)
              = [0x63, 0x68, 0x61, 0x6e]"
    by (simp add: demo_env_def demo_conf_def demo_digest_def signed_content_def truthy_def js_def)
  have g: "generateHmacSignature demo_env (PString (js ''{}'')) None = js ''6368616e''"
    unfolding generateHmacSignature_eq dg by (simp add: to_hex_def hex_digit_def js_def)
  have u: "from_hex (js ''6368616E'') = [0x63, 0x68, 0x61, 0x6e]"
    by (simp add: js_def hex_value_def)
  have d: "valid (verifyHmacSignature demo_env (PString (js ''{}'')) (js ''6368616E'') None None) = True"
    using verify_fresh[of None demo_env None "PString (js ''{}'')" "js ''6368616E''"] n(2)
    by (simp add: dg u)
  have ne: "js ''6368616E'' \<noteq> js ''6368616e''" by (simp add: js_def)
  from a b g ne d show ?thesis by simp
qed

section \<open>Validation failures of the scheduling tools\<close>

lemma startsWith_append: "startsWith (p @ s) p"
  by (simp add: startsWith_def)

lemma schedule_task_store:
  "schedule_task_handler e ps ctx db = (x, db') \<Longrightarrow> (\<forall>r. x \<noteq> Inr (Succeeded r)) \<Longrightarrow> db' = db"
  by (auto simp: schedule_task_handler_def Let_def
      split: option.splits if_splits sum.splits prod.splits)

lemma schedule_recurring_store:
  "schedule_recurring_handler e ps ctx db = (x, db') \<Longrightarrow> db' \<noteq> db \<Longrightarrow>
     (\<exists>r. x = Inr (Succeeded r)) \<or>
     (\<exists>msg. x = Inr (Failure (js ''Failed to create recurring task: '' @ msg)))"
  by (auto simp: schedule_recurring_handler_def Let_def
      split: option.splits if_splits sum.splits prod.splits)

lemma metadata_hostname_blocked:
  "list_ex (hostname_blocked_by (js ''169.254.169.254'')) BLOCKED_HOSTNAMES"
  by (simp add: BLOCKED_HOSTNAMES_def hostname_blocked_by_def startsWith_def endsWith_def js_def)

lemma validateWebhookUrl_metadata:
  assumes "parse_url e u = Inr (proto, host)"
    and "proto = js ''http:'' \<or> proto = js ''https:''"
    and "toLowerCase host = js ''169.254.169.254''"
  shows "\<not> valid (validateWebhookUrl e u) \<and>
         error (validateWebhookUrl e u)
           = Some (if production e \<and> proto \<noteq> js ''https:''
                   then js ''HTTPS required in production''
                   else js ''Hostname 169.254.169.254 is blocked'')"
proof -
  have m: "js ''Hostname '' @ js ''169.254.169.254'' @ js '' is blocked''
             = js ''Hostname 169.254.169.254 is blocked''"
    by (simp add: js_def)
  show ?thesis
    using assms metadata_hostname_blocked
    by (auto simp: validateWebhookUrl_def url_invalid_def Let_def m)
qed

lemma schedule_task_invalid_url:
  assumes "timing_error (parseTimeInput e (p_at ps) (p_in ps)) = None"
    and "p_callback ps = Some cb" and "c_type cb = Some (js ''webhook'')"
    and "c_url cb = Some u" and "u \<noteq> []"
    and "\<not> valid (validateWebhookUrl e u)"
  shows "schedule_task_handler e ps ctx db
           = (Inr (Failure (js ''Invalid webhook URL: '' @ shown (error (validateWebhookUrl e u)))), db)"
proof -
  have w: "js ''webhook'' \<noteq> []" by (simp add: js_def)
  show ?thesis
    using assms w by (simp add: schedule_task_handler_def Let_def truthy_def)
qed

text \<open>
  Claim C7.  Whenever \<open>schedule_task\<close> does not answer with \<open>success: true\<close> (it answers
  \<open>success: false\<close> for the timing, the callback, the webhook URL, the e-mail address, the
  payload or the cap on active tasks, or for a refused insert, or the count query throws),
  the database is unchanged.  Whenever \<open>schedule_recurring\<close> answers \<open>success: false\<close> with an
  error other than the one of the \<open>catch\<close> around the insert (\<open>Failed to create recurring
  task: ...\<close>), or throws, the database is unchanged: every failure of the cron check, the
  callback, the webhook URL, the payload or the cap is of this kind.  In particular a
  one-time task with a webhook whose host is \<open>169.254.169.254\<close> is answered with
  \<open>Invalid webhook URL: Hostname 169.254.169.254 is blocked\<close> (with
  \<open>HTTPS required in production\<close> for an \<open>http\<close> address in production) and nothing is stored.
\<close>

theorem schedule_validation_failure_keeps_store:
  "(schedule_task_handler e ps ctx db = (x1, d1) \<and> (\<forall>r. x1 \<noteq> Inr (Succeeded r)) \<longrightarrow> d1 = db) \<and>
   (schedule_recurring_handler e ps ctx db = (x2, d2) \<and> (\<forall>r. x2 \<noteq> Inr (Succeeded r)) \<and>
      (\<forall>msg. x2 \<noteq> Inr (Failure (js ''Failed to create recurring task: '' @ msg))) \<longrightarrow> d2 = db) \<and>
   (timing_error (parseTimeInput e (p_at ps) (p_in ps)) = None \<and>
    p_callback ps = Some cb \<and> c_type cb = Some (js ''webhook'') \<and> c_url cb = Some u \<and> u \<noteq> [] \<and>
    parse_url e u = Inr (proto, host) \<and> (proto = js ''http:'' \<or> proto = js ''https:'') \<and>
    toLowerCase host = js ''169.254.169.254'' \<longrightarrow>
      schedule_task_handler e ps ctx db
        = (Inr (Failure (js ''Invalid webhook URL: '' @
                   (if production e \<and> proto \<noteq> js ''https:''
                    then js ''HTTPS required in production''
                    else js ''Hostname 169.254.169.254 is blocked''))), db))"
proof (intro conjI impI)
  assume "schedule_task_handler e ps ctx db = (x1, d1) \<and> (\<forall>r. x1 \<noteq> Inr (Succeeded r))"
  then show "d1 = db" using schedule_task_store by blast
next
  assume a: "schedule_recurring_handler e ps ctx db = (x2, d2) \<and> (\<forall>r. x2 \<noteq> Inr (Succeeded r)) \<and>
      (\<forall>msg. x2 \<noteq> Inr (Failure (js ''Failed to create recurring task: '' @ msg)))"
  show "d2 = db"
  proof (rule ccontr)
    assume "d2 \<noteq> db"
    with a schedule_recurring_store[of e ps ctx db x2 d2] show False by blast
  qed
next
  assume a: "timing_error (parseTimeInput e (p_at ps) (p_in ps)) = None \<and>
    p_callback ps = Some cb \<and> c_type cb = Some (js ''webhook'') \<and> c_url cb = Some u \<and> u \<noteq> [] \<and>
    parse_url e u = Inr (proto, host) \<and> (proto = js ''http:'' \<or> proto = js ''https:'') \<and>
    toLowerCase host = js ''169.254.169.254''"
  then have v: "\<not> valid (validateWebhookUrl e u)"
    and m: "error (validateWebhookUrl e u)
           = Some (if production e \<and> proto \<noteq> js ''https:''
                   then js ''HTTPS required in production''
                   else js ''Hostname 169.254.169.254 is blocked'')"
    using validateWebhookUrl_metadata[of e u proto host] by blast+
  from a v have "schedule_task_handler e ps ctx db
           = (Inr (Failure (js ''Invalid webhook URL: '' @ shown (error (validateWebhookUrl e u)))), db)"
    by (intro schedule_task_invalid_url[of e ps cb u]) blast+
  then show "schedule_task_handler e ps ctx db
        = (Inr (Failure (js ''Invalid webhook URL: '' @
                   (if production e \<and> proto \<noteq> js ''https:''
                    then js ''HTTPS required in production''
                    else js ''Hostname 169.254.169.254 is blocked''))), db)"
    unfolding m by (simp add: shown_def)
qed

theorem schedule_validation_failure_keeps_store_witness:
  "schedule_task_handler demo_env metadata_params demo_context demo_db
     = (Inr (Failure (js ''Invalid webhook URL: Hostname 169.254.169.254 is blocked'')), demo_db) \<and>
   schedule_recurring_handler demo_env
          (metadata_params\<lparr>p_cron := Some (js ''0 9 * * *; curl evil'')\<rparr>) demo_context demo_db
     = (Inr (Failure (js ''Cron expression contains invalid characters. Only 0-9, space, comma, dash, asterisk, and slash are allowed.'')),
        demo_db)"
proof -
  let ?cb = "\<lparr>c_type = Some (js ''webhook''), c_url = Some (js ''http://169.254.169.254/''),
              c_channel = None, c_email = None\<rparr>"
  let ?ps = "metadata_params\<lparr>p_cron := Some (js ''0 9 * * *; curl evil'')\<rparr>"
  let ?m = "js ''Cron expression contains invalid characters. Only 0-9, space, comma, dash, asterisk, and slash are allowed.''"
  have t: "timing_error (parseTimeInput demo_env (p_at metadata_params) (p_in metadata_params)) = None"
    by (simp add: parseTimeInput_def parseRelativeTime_def metadata_params_def no_params_def
        demo_env_def truthy_def js_def)
  have c: "p_callback metadata_params = Some ?cb"
    by (simp add: metadata_params_def no_params_def)
  have u: "parse_url demo_env (js ''http://169.254.169.254/'') = Inr (js ''http:'', js ''169.254.169.254'')"
    by (simp add: demo_env_def demo_parse_url_def js_def)
  have l: "toLowerCase (js ''169.254.169.254'') = js ''169.254.169.254''"
    by (simp add: toLowerCase_def lower_cu_def js_def)
  have n: "js ''http://169.254.169.254/'' \<noteq> []" by (simp add: js_def)
  have p: "\<not> production demo_env" by (simp add: demo_env_def)
  have j: "js ''Invalid webhook URL: '' @ js ''Hostname 169.254.169.254 is blocked''
             = js ''Invalid webhook URL: Hostname 169.254.169.254 is blocked''"
    by (simp add: js_def)
  from schedule_validation_failure_keeps_store[where e = demo_env and ps = metadata_params
      and ctx = demo_context and db = demo_db and cb = ?cb and u = "js ''http://169.254.169.254/''"
      and proto = "js ''http:''" and host = "js ''169.254.169.254''"]
    t c u l n p
  have a: "schedule_task_handler demo_env metadata_params demo_context demo_db
     = (Inr (Failure (js ''Invalid webhook URL: Hostname 169.254.169.254 is blocked'')), demo_db)"
    by (simp add: j)
  have bad: "validateCronExpression (Some (js ''0 9 * * *; curl evil'')) = invalid ?m"
  proof -
    have "(59::nat) \<in> set (js ''0 9 * * *; curl evil'')" by (simp add: js_def)
    moreover have "\<not> allowed_char 59" by (simp add: allowed_char_def is_space_def js_def)
    ultimately have "\<not> test allowedCharsRegex (js ''0 9 * * *; curl evil'')"
      unfolding test_allowedCharsRegex by blast
    moreover have "truthy (Some (js ''0 9 * * *; curl evil''))" by (simp add: truthy_def js_def)
    ultimately show ?thesis
      by (simp add: validateCronExpression_def Let_def)
  qed
  obtain x2 d2 where r: "schedule_recurring_handler demo_env ?ps demo_context demo_db = (x2, d2)"
    by (cases "schedule_recurring_handler demo_env ?ps demo_context demo_db")
  have pc: "p_cron ?ps = Some (js ''0 9 * * *; curl evil'')" by simp
  from r have y: "x2 = Inr (Failure ?m)"
    by (simp add: schedule_recurring_handler_def Let_def pc bad invalid_def shown_def
        del: params.simps)
  have ne: "\<forall>msg. x2 \<noteq> Inr (Failure (js ''Failed to create recurring task: '' @ msg))"
    unfolding y by (simp add: js_def)
  have ns: "\<forall>r. x2 \<noteq> Inr (Succeeded r)" unfolding y by simp
  from schedule_validation_failure_keeps_store[where e = demo_env and ps = ?ps
      and ctx = demo_context and db = demo_db and ?x2.0 = x2 and ?d2.0 = d2] r ne ns
  have b: "d2 = demo_db" by blast
  from a b r y show ?thesis by simp
qed

section \<open>cancel_task\<close>

lemma getById_Some: "getById i tb = Some t \<Longrightarrow> t \<in> set tb \<and> task_id t = i"
proof -
  assume "getById i tb = Some t"
  then obtain rest where "filter (\<lambda>r. task_id r = i) tb = t # rest"
    by (auto simp: getById_def split: list.splits)
  then have "t \<in> set (filter (\<lambda>r. task_id r = i) tb)" by simp
  then show ?thesis by simp
qed

lemma update_where_first:
  "filter cond tb = t # rest \<Longrightarrow> fst (update_where cond f now tb) = Some (touch now (f t))"
  by (simp add: update_where_def)

lemma getById_update_where:
  assumes "getById i tb = Some t" and "\<And>r. task_id (f r) = task_id r"
  shows "getById i (snd (update_where (\<lambda>r. task_id r = i) f now tb)) = Some (touch now (f t))"
proof -
  have ids: "\<And>r. task_id (touch now (f r)) = task_id r"
    by (simp add: touch_def assms(2))
  have "filter (\<lambda>r. task_id r = i) (map (\<lambda>r. if task_id r = i then touch now (f r) else r) tb)
          = map (\<lambda>r. touch now (f r)) (filter (\<lambda>r. task_id r = i) tb)"
    by (induction tb) (auto simp: ids)
  moreover from assms(1) obtain rest where "filter (\<lambda>r. task_id r = i) tb = t # rest"
    by (auto simp: getById_def split: list.splits)
  ultimately show ?thesis
    by (simp add: getById_def update_where_rows)
qed

lemma find_task_Some:
  "find_task i db = Some t \<Longrightarrow> i = Some (task_id t) \<and> getById (task_id t) (tasks db) = Some t"
  by (cases i) (auto simp: find_task_def dest: getById_Some)

lemma cancel_found:
  assumes "getById (task_id t) (tasks db) = Some t"
  shows "on_tasks (cancel (task_id t) now) db
           = (Some (touch now (t\<lparr>status := Cancelled\<rparr>)),
              db\<lparr>tasks := snd (cancel (task_id t) now (tasks db))\<rparr>)"
proof -
  from assms obtain rest where "filter (\<lambda>r. task_id r = task_id t) (tasks db) = t # rest"
    by (auto simp: getById_def split: list.splits)
  then have "fst (cancel (task_id t) now (tasks db)) = Some (touch now (t\<lparr>status := Cancelled\<rparr>))"
    unfolding cancel_def updateStatus_def by (rule update_where_first)
  then show ?thesis
    by (cases "cancel (task_id t) now (tasks db)") (simp add: on_tasks_def)
qed

subsection \<open>The status \<open>failed\<close> is never written\<close>

lemma never_failed_empty: "never_failed []"
  by (simp add: never_failed_def)

lemma never_failed_update_where:
  assumes "never_failed tb" and "\<And>r. status r \<noteq> Failed \<Longrightarrow> status (f r) \<noteq> Failed"
  shows "never_failed (snd (update_where cond f now tb))"
  using assms unfolding never_failed_def update_where_rows
  by (auto simp: touch_def)

lemma never_failed_create:
  "never_failed tb \<Longrightarrow> create newId task now tb = Inr (row, tb') \<Longrightarrow> never_failed tb'"
  by (auto simp: create_def Let_def never_failed_def new_row_def split: if_splits)

lemma never_failed_statements:
  assumes "never_failed tb"
  shows "never_failed (snd (cancel i now tb))"
    and "never_failed (snd (pause i now tb))"
    and "never_failed (snd (resume i now tb))"
    and "never_failed (snd (lockTask i w now tb))"
    and "never_failed (snd (unlockTask i now tb))"
    and "never_failed (snd (recordExecution i nxt completed now tb))"
    and "never_failed (cleanupStaleLocks timeout now tb)"
  unfolding cancel_def pause_def resume_def updateStatus_def lockTask_def unlockTask_def
    recordExecution_def cleanupStaleLocks_def
  by (rule never_failed_update_where[OF assms]; simp)+

lemma never_failed_result:
  assumes "never_failed tb"
  shows "cancel i now tb = (r, tb') \<Longrightarrow> never_failed tb'"
    and "pause i now tb = (r, tb') \<Longrightarrow> never_failed tb'"
    and "resume i now tb = (r, tb') \<Longrightarrow> never_failed tb'"
    and "lockTask i w now tb = (r, tb') \<Longrightarrow> never_failed tb'"
    and "unlockTask i now tb = (r, tb') \<Longrightarrow> never_failed tb'"
    and "recordExecution i nxt completed now tb = (r, tb') \<Longrightarrow> never_failed tb'"
  using never_failed_statements(1)[OF assms, of i now]
    never_failed_statements(2)[OF assms, of i now]
    never_failed_statements(3)[OF assms, of i now]
    never_failed_statements(4)[OF assms, of i w now]
    never_failed_statements(5)[OF assms, of i now]
    never_failed_statements(6)[OF assms, of i nxt completed now]
  by simp_all

lemma never_failed_cancel_task:
  "never_failed (tasks db) \<Longrightarrow> never_failed (tasks (snd (cancel_task_handler e ps ctx db)))"
  by (auto simp: cancel_task_handler_def Let_def on_tasks_def
      split: option.splits prod.splits dest: never_failed_result(1))

lemma never_failed_pause:
  "never_failed (tasks db) \<Longrightarrow> never_failed (tasks (snd (pauseHandler e ps ctx db)))"
  by (auto simp: pauseHandler_def Let_def on_tasks_def
      split: option.splits prod.splits dest: never_failed_result(2))

lemma never_failed_resume:
  "never_failed (tasks db) \<Longrightarrow> never_failed (tasks (snd (resumeHandler e ps ctx db)))"
  by (auto simp: resumeHandler_def Let_def on_tasks_def
      split: option.splits prod.splits if_splits)
     (blast dest: never_failed_result(3) never_failed_result(6))+

lemma never_failed_schedule_task:
  "never_failed (tasks db) \<Longrightarrow> never_failed (tasks (snd (schedule_task_handler e ps ctx db)))"
  by (auto simp: schedule_task_handler_def Let_def
      split: option.splits if_splits sum.splits prod.splits dest: never_failed_create)

lemma never_failed_schedule_recurring:
  "never_failed (tasks db) \<Longrightarrow> never_failed (tasks (snd (schedule_recurring_handler e ps ctx db)))"
  by (auto simp: schedule_recurring_handler_def Let_def on_tasks_def
      split: option.splits if_splits sum.splits prod.splits
      dest: never_failed_create never_failed_result(2))

lemma never_failed_list_get:
  "tasks (snd (list_tasks_handler e ps ctx db)) = tasks db"
  "tasks (snd (get_task_handler e ps ctx db)) = tasks db"
  by (auto simp: list_tasks_handler_def get_task_handler_def Let_def
      split: option.splits sum.splits)

text \<open>Every tool call and every turn of the worker keeps the table free of \<open>failed\<close> rows.\<close>

lemma never_failed_executeTool:
  assumes "never_failed (tasks db)"
  shows "never_failed (tasks (snd (executeTool e nm ps ctx db)))"
proof (cases "toolHandlers_of tools nm")
  case None
  with assms show ?thesis by (simp add: executeTool_def executeTool_of_def)
next
  case (Some h)
  then have "(nm, h) \<in> set tools"
    unfolding toolHandlers_of_def by (auto dest: map_of_SomeD)
  then have "never_failed (tasks (snd (h e ps ctx db)))"
    using assms never_failed_schedule_task never_failed_schedule_recurring never_failed_cancel_task
      never_failed_pause never_failed_resume
    by (auto simp: tools_def never_failed_list_get)
  with Some show ?thesis
    by (auto simp: executeTool_def executeTool_of_def split: prod.splits sum.splits)
qed

lemma never_failed_process_task:
  assumes "never_failed (tasks db)"
  shows "never_failed (tasks (snd (process_task e w t db)))"
proof -
  have x: "never_failed (tasks (snd (executeTask e t d)))" if n: "never_failed (tasks d)"
    for d :: database
  proof -
    have k: "\<And>d1 nxt c. tasks d1 = tasks d \<Longrightarrow>
               never_failed (tasks (snd (on_tasks (recordExecution (task_id t) nxt c (clock e)) d1)))"
      using n by (simp add: tasks_on_tasks never_failed_statements(6))
    obtain x0 d1 where c: "execution_create (gen_random_uuid e) (task_id t) Running
        (url (callback_config t)) (payload t) (clock e) d = (x0, d1)"
      by (cases "execution_create (gen_random_uuid e) (task_id t) Running
        (url (callback_config t)) (payload t) (clock e) d")
    obtain res d2 where dd: "dispatch e t d1 = (res, d2)" by (cases "dispatch e t d1")
    from c have t1: "tasks d1 = tasks d"
      using tasks_execution_create[of "gen_random_uuid e" "task_id t" Running
          "url (callback_config t)" "payload t" "clock e" d] by simp
    from dd have t2: "tasks d2 = tasks d1" using tasks_dispatch[of e t d1] by simp
    show ?thesis
      using n c dd t1 t2 k
      by (cases "task_type t")
         (auto simp: executeTask_def Let_def tasks_execution_complete split: option.splits)
  qed
  obtain r tb where l: "lockTask (task_id t) w (clock e) (tasks db) = (r, tb)"
    by (cases "lockTask (task_id t) w (clock e) (tasks db)")
  from never_failed_result(4)[OF assms l] have n1: "never_failed (tasks (db\<lparr>tasks := tb\<rparr>))" by simp
  from x[OF n1] have n2: "never_failed (tasks (snd (executeTask e t (db\<lparr>tasks := tb\<rparr>))))" .
  then have n3: "never_failed (tasks (snd (on_tasks (unlockTask (task_id t) (clock e))
                    (snd (executeTask e t (db\<lparr>tasks := tb\<rparr>))))))"
    by (simp add: tasks_on_tasks never_failed_statements(5))
  show ?thesis
    using assms l n1 n2 n3
    by (auto simp: process_task_def on_tasks_def split: option.splits prod.splits sum.splits)
qed

text \<open>
  Claim C8.  No statement of the repository writes the status \<open>failed\<close>, so the tables the
  code works on have no such row (\<open>never_failed\<close>; the lemmas above show that the insert,
  the status updates of the tools, the lease statements, \<open>recordExecution\<close> and the stale-lock
  cleanup keep it).  On such a table, when the task exists and no query rejects,
  \<open>cancel_task\<close> succeeds exactly when the status is \<open>active\<close> or \<open>paused\<close>: then the stored
  status becomes \<open>cancelled\<close>; for a cancelled task it answers \<open>Task is already cancelled\<close>,
  for a completed one \<open>Cannot cancel a completed task\<close>, and in both cases the database is
  left as it is.
\<close>

theorem cancel_task_active_or_paused:
  assumes "db_fault e QGetById = None" and "db_fault e QUpdateStatus = None"
    and "find_task (p_id ps) db = Some t" and "never_failed (tasks db)"
  shows "succeeded (cancel_task_handler e ps ctx db) = (status t \<in> {Active, Paused}) \<and>
         (status t = Cancelled \<longrightarrow>
            cancel_task_handler e ps ctx db = (Inr (Failure (js ''Task is already cancelled'')), db)) \<and>
         (status t = Completed \<longrightarrow>
            cancel_task_handler e ps ctx db = (Inr (Failure (js ''Cannot cancel a completed task'')), db)) \<and>
         (status t \<notin> {Active, Paused} \<longrightarrow> status t = Cancelled \<or> status t = Completed) \<and>
         (status t \<in> {Active, Paused} \<longrightarrow>
            map_option status (find_task (p_id ps) (snd (cancel_task_handler e ps ctx db))) = Some Cancelled)"
proof -
  from find_task_Some[OF assms(3)]
  have i: "p_id ps = Some (task_id t)" and g: "getById (task_id t) (tasks db) = Some t" by auto
  from getById_Some[OF g] assms(4) have nf: "status t \<noteq> Failed"
    by (simp add: never_failed_def)
  then have dom: "(status t \<in> {Active, Paused}) = (status t \<noteq> Cancelled \<and> status t \<noteq> Completed)"
    by (cases "status t") simp_all
  have after: "getById (task_id t) (snd (cancel (task_id t) (clock e) (tasks db)))
                 = Some (touch (clock e) (t\<lparr>status := Cancelled\<rparr>))"
    unfolding cancel_def updateStatus_def using g by (rule getById_update_where) simp
  show ?thesis
    unfolding dom using assms(1,2) i after
    by (simp add: cancel_task_handler_def succeeded_def success_def cancel_found[OF g]
        find_task_def touch_def g)
qed

theorem cancel_task_active_or_paused_witness:
  "never_failed (tasks demo_db) \<and> status demo_task \<in> {Active, Paused} \<and>
   succeeded (cancel_task_handler demo_env (id_params ''t1'') demo_context demo_db) \<and>
   map_option status (find_task (Some (js ''t1''))
      (snd (cancel_task_handler demo_env (id_params ''t1'') demo_context demo_db))) = Some Cancelled \<and>
   cancel_task_handler demo_env (id_params ''t1'') demo_context (db_of [demo_task\<lparr>status := Completed\<rparr>])
     = (Inr (Failure (js ''Cannot cancel a completed task'')), db_of [demo_task\<lparr>status := Completed\<rparr>])"
proof -
  have a: "db_fault demo_env QGetById = None" "db_fault demo_env QUpdateStatus = None"
    by (simp_all add: demo_env_def)
  have f: "find_task (p_id (id_params ''t1'')) demo_db = Some demo_task"
    by (simp add: find_task_def id_params_def no_params_def demo_db_def getById_def demo_task_def)
  have s: "status demo_task = Active" by (simp add: demo_task_def)
  have n: "never_failed (tasks demo_db)"
    by (simp add: never_failed_def demo_db_def demo_task_def)
  have f2: "find_task (p_id (id_params ''t1'')) (db_of [demo_task\<lparr>status := Completed\<rparr>])
              = Some (demo_task\<lparr>status := Completed\<rparr>)"
    by (simp add: find_task_def id_params_def no_params_def db_of_def getById_def demo_task_def)
  have n2: "never_failed (tasks (db_of [demo_task\<lparr>status := Completed\<rparr>]))"
    by (simp add: never_failed_def db_of_def)
  from cancel_task_active_or_paused[OF a f n, of demo_context] s
  have p1: "succeeded (cancel_task_handler demo_env (id_params ''t1'') demo_context demo_db) \<and>
            map_option status (find_task (Some (js ''t1''))
              (snd (cancel_task_handler demo_env (id_params ''t1'') demo_context demo_db))) = Some Cancelled"
    by (simp add: id_params_def no_params_def)
  from cancel_task_active_or_paused[OF a f2 n2, of demo_context]
  have p2: "cancel_task_handler demo_env (id_params ''t1'') demo_context (db_of [demo_task\<lparr>status := Completed\<rparr>])
     = (Inr (Failure (js ''Cannot cancel a completed task'')), db_of [demo_task\<lparr>status := Completed\<rparr>])"
    by simp
  from n s p1 p2 show ?thesis by simp
qed

section \<open>resume_task\<close>

text \<open>
  Claim C9 at a paused recurring task that was never executed (\<open>execution_count = 0\<close>,
  \<open>last_executed_at\<close> null).  \<open>resume_task\<close> succeeds, sets the status to \<open>active\<close> and stores the
  recomputed \<open>next_run_at\<close>; it stores it through \<open>recordExecution\<close>, which also counts an
  execution and stamps \<open>last_executed_at\<close>, although nothing was executed.
\<close>

theorem resume_task_counts_an_execution:
  "execution_count demo_recurring = 0 \<and> last_executed_at demo_recurring = None \<and>
   status demo_recurring = Paused \<and>
   succeeded (resumeHandler demo_env (id_params ''r1'') demo_context (db_of [demo_recurring])) \<and>
   tasks (snd (resumeHandler demo_env (id_params ''r1'') demo_context (db_of [demo_recurring])))
     = [demo_recurring\<lparr> status := Active, next_run_at := Some 62000, updated_at := 2000,
                         execution_count := 1, last_executed_at := Some 2000 \<rparr>]"
  by (simp add: resumeHandler_def succeeded_def success_def find_task_def id_params_def
      no_params_def db_of_def getById_def demo_recurring_def demo_task_def demo_env_def
      on_tasks_def resume_def updateStatus_def recordExecution_def update_where_def touch_def
      getNextCronRun_def truthy_def js_def Let_def)

text \<open>The same for every paused recurring task with a cron expression the parser accepts:
  the stored row has one more execution and a new \<open>last_executed_at\<close>.\<close>

lemma resume_task_recurring_row:
  assumes "db_fault e QGetById = None" and "db_fault e QUpdateStatus = None"
    and "db_fault e QRecordExecution = None"
    and "find_task (p_id ps) db = Some t" and "status t = Paused"
    and "task_type t = Recurring" and "cron_expression t = Some c" and "c \<noteq> []"
    and "getNextCronRun e c (timezone t) = Some nxt"
  shows "find_task (p_id ps) (snd (resumeHandler e ps ctx db))
           = Some (t\<lparr> status := Active, last_executed_at := Some (clock e),
                      execution_count := execution_count t + 1, next_run_at := Some nxt,
                      locked_at := None, locked_by := None, updated_at := clock e \<rparr>)"
proof -
  from find_task_Some[OF assms(4)]
  have i: "p_id ps = Some (task_id t)" and g: "getById (task_id t) (tasks db) = Some t" by auto
  let ?t1 = "touch (clock e) (t\<lparr>status := Active\<rparr>)"
  let ?tb1 = "snd (resume (task_id t) (clock e) (tasks db))"
  have g1: "getById (task_id t) ?tb1 = Some ?t1"
    unfolding resume_def updateStatus_def using g by (rule getById_update_where) simp
  have id1: "task_id ?t1 = task_id t" by (simp add: touch_def)
  let ?f = "\<lambda>r. r\<lparr>last_executed_at := Some (clock e), execution_count := execution_count r + 1,
                    next_run_at := Some nxt, status := (if False then Completed else status r),
                    locked_at := None, locked_by := None\<rparr>"
  have g2: "getById (task_id t) (snd (recordExecution (task_id t) (Some nxt) False (clock e) ?tb1))
              = Some (touch (clock e) (?f ?t1))"
    unfolding recordExecution_def using g1 by (rule getById_update_where) simp
  from g obtain rest where "filter (\<lambda>r. task_id r = task_id t) (tasks db) = t # rest"
    by (auto simp: getById_def split: list.splits)
  then have u: "fst (resume (task_id t) (clock e) (tasks db)) = Some ?t1"
    unfolding resume_def updateStatus_def by (rule update_where_first)
  obtain tb1 where r: "resume (task_id t) (clock e) (tasks db) = (Some ?t1, tb1)"
    using u by (cases "resume (task_id t) (clock e) (tasks db)") simp
  then have tb1: "?tb1 = tb1" by simp
  have "snd (resumeHandler e ps ctx db)
          = snd (on_tasks (recordExecution (task_id t) (Some nxt) False (clock e)) (db\<lparr>tasks := tb1\<rparr>))"
    using assms i r
    by (simp add: resumeHandler_def find_task_def g on_tasks_def truthy_def Let_def)
  then have "tasks (snd (resumeHandler e ps ctx db))
          = snd (recordExecution (task_id t) (Some nxt) False (clock e) ?tb1)"
    unfolding tb1 by (simp add: on_tasks_def split: prod.splits)
  with g2 i show ?thesis
    by (simp add: find_task_def touch_def)
qed

section \<open>executeTool\<close>

text \<open>
  Claim C10.  \<open>executeTool\<close> always returns a reply (it never lets an exception out), for
  every registry of handlers, name and arguments: an unregistered name gives
  \<open>{success: false, error: "Unknown tool: <name>"}\<close>, an exception of the registered handler
  gives \<open>{success: false, error}\<close> with the handler's message after \<open>Tool execution failed: \<close>,
  and otherwise the handler's reply is passed on.  (A handler is taken to settle: a promise
  that never settles has no counterpart in the model.)
\<close>

theorem executeTool_total:
  "(\<exists>r. fst (executeTool_of registry e nm ps ctx db) = Inr r) \<and>
   (toolHandlers_of registry nm = None \<longrightarrow>
      executeTool_of registry e nm ps ctx db = (Inr (Failure (js ''Unknown tool: '' @ nm)), db)) \<and>
   (\<forall>h msg db'. toolHandlers_of registry nm = Some h \<and> h e ps ctx db = (Inl msg, db') \<longrightarrow>
      executeTool_of registry e nm ps ctx db
        = (Inr (Failure (js ''Tool execution failed: '' @ msg)), db')) \<and>
   (\<forall>h r db'. toolHandlers_of registry nm = Some h \<and> h e ps ctx db = (Inr r, db') \<longrightarrow>
      executeTool_of registry e nm ps ctx db = (Inr r, db'))"
  by (auto simp: executeTool_of_def split: option.splits sum.splits prod.splits)

theorem executeTool_total_witness:
  "executeTool demo_env (js ''nope'') no_params demo_context demo_db
     = (Inr (Failure (js ''Unknown tool: nope'')), demo_db) \<and>
   executeTool demo_env_count_rejects (js ''schedule_task'') store_params demo_context demo_db
     = (Inr (Failure (js ''Tool execution failed: connection refused'')), demo_db)"
proof -
  have n: "toolHandlers_of tools (js ''nope'') = None"
    by (simp add: toolHandlers_of_def tools_def js_def)
  have h: "toolHandlers_of tools (js ''schedule_task'') = Some schedule_task_handler"
    by (simp add: toolHandlers_of_def tools_def js_def)
  have t: "schedule_task_handler demo_env_count_rejects store_params demo_context demo_db
             = (Inl (js ''connection refused''), demo_db)"
    by (simp add: schedule_task_handler_def demo_env_count_rejects_def demo_env_def store_params_def
        no_params_def parseTimeInput_def parseRelativeTime_def truthy_def sanitizePayload_def js_def)
  from executeTool_total[of tools demo_env "js ''nope''" no_params demo_context demo_db] n
  have a: "executeTool demo_env (js ''nope'') no_params demo_context demo_db
             = (Inr (Failure (js ''Unknown tool: nope'')), demo_db)"
    by (simp add: executeTool_def js_def)
  from executeTool_total[of tools demo_env_count_rejects "js ''schedule_task''" store_params
      demo_context demo_db] h t
  have b: "executeTool demo_env_count_rejects (js ''schedule_task'') store_params demo_context demo_db
             = (Inr (Failure (js ''Tool execution failed: connection refused'')), demo_db)"
    by (simp add: executeTool_def js_def)
  from a b show ?thesis by simp
qed

end
